theory Spec2Isabelle
  imports Main "HOL-Library.Multiset"
begin

section \<open>Strings and the regular expressions of the processor\<close>

text \<open>
  JavaScript strings are modelled as \<^typ>\<open>string\<close>. The processor only ever
  searches them for ASCII patterns, with \<^verbatim>\<open>String.prototype.includes\<close> and with a
  handful of regular expressions; each of these is written out as a function below.
\<close>

fun startsWith :: "string \<Rightarrow> string \<Rightarrow> bool" where
  "startsWith s [] = True"
| "startsWith [] (p # ps) = False"
| "startsWith (c # cs) (p # ps) = (c = p \<and> startsWith cs ps)"

text \<open>\<^verbatim>\<open>s.includes(sub)\<close>: \<open>sub\<close> occurs somewhere in \<open>s\<close>.\<close>

fun str_includes :: "string \<Rightarrow> string \<Rightarrow> bool" where
  "str_includes [] sub = (sub = [])"
| "str_includes (c # cs) sub = (startsWith (c # cs) sub \<or> str_includes cs sub)"

definition endsWith :: "string \<Rightarrow> string \<Rightarrow> bool" where
  "endsWith s suffix = startsWith (rev s) (rev suffix)"

definition toLowerAscii :: "char \<Rightarrow> char" where
  "toLowerAscii c =
     (case map_of (zip ''ABCDEFGHIJKLMNOPQRSTUVWXYZ'' ''abcdefghijklmnopqrstuvwxyz'') c of
        Some l \<Rightarrow> l
      | None \<Rightarrow> c)"

text \<open>The character classes \<^verbatim>\<open>\d\<close> and \<^verbatim>\<open>\w\<close>.\<close>

definition is_digit :: "char \<Rightarrow> bool" where
  "is_digit c = (c \<in> set ''0123456789'')"

definition is_word :: "char \<Rightarrow> bool" where
  "is_word c =
     (c \<in> set ''abcdefghijklmnopqrstuvwxyzABCDEFGHIJKLMNOPQRSTUVWXYZ0123456789_'')"

text \<open>
  A regular expression is modelled by its matcher at one position: given the rest of the
  subject, the matcher returns the captured text and the length of the match, or
  \<open>None\<close>. \<open>matchAll\<close> is the iteration of a global (\<^verbatim>\<open>/g\<close>) expression: after a
  match the search resumes behind it (one character further for an empty match), after
  a failure one character further. \<open>firstMatch\<close> is \<^verbatim>\<open>String.prototype.match\<close> for
  an expression without \<^verbatim>\<open>/g\<close>.
\<close>

fun matchAll :: "(string \<Rightarrow> ('a \<times> nat) option) \<Rightarrow> string \<Rightarrow> 'a list" where
  "matchAll m [] = (case m [] of Some (x, n) \<Rightarrow> [x] | None \<Rightarrow> [])"
| "matchAll m (c # cs) =
     (case m (c # cs) of
        Some (x, n) \<Rightarrow> x # matchAll m (drop (max 1 n) (c # cs))
      | None \<Rightarrow> matchAll m cs)"

fun firstMatch :: "(string \<Rightarrow> ('a \<times> nat) option) \<Rightarrow> string \<Rightarrow> 'a option" where
  "firstMatch m [] = map_option fst (m [])"
| "firstMatch m (c # cs) =
     (case m (c # cs) of Some (x, n) \<Rightarrow> Some x | None \<Rightarrow> firstMatch m cs)"

section \<open>Paywalled domains\<close>

definition PAYWALL_DOMAINS :: "string list" where
  "PAYWALL_DOMAINS =
     [''nytimes.com'', ''wsj.com'', ''washingtonpost.com'', ''theatlantic.com'',
      ''newyorker.com'', ''bloomberg.com'', ''ft.com'', ''economist.com'',
      ''bostonglobe.com'', ''latimes.com'', ''wired.com'']"

definition isPaywalled :: "string \<Rightarrow> bool" where
  "isPaywalled url = list_ex (\<lambda>domain. str_includes url domain) PAYWALL_DOMAINS"

section \<open>Link classification\<close>

datatype link_type = Github | Video | XArticle | Media | Tweet | Image | Article

text \<open>
  The names the source returns: \<^verbatim>\<open>'github'\<close>, \<^verbatim>\<open>'video'\<close>, \<^verbatim>\<open>'x-article'\<close>,
  \<^verbatim>\<open>'media'\<close>, \<^verbatim>\<open>'tweet'\<close>, \<^verbatim>\<open>'image'\<close>, \<^verbatim>\<open>'article'\<close>.
\<close>

fun link_type_name :: "link_type \<Rightarrow> string" where
  "link_type_name Github = ''github''"
| "link_type_name Video = ''video''"
| "link_type_name XArticle = ''x-article''"
| "link_type_name Media = ''media''"
| "link_type_name Tweet = ''tweet''"
| "link_type_name Image = ''image''"
| "link_type_name Article = ''article''"

text \<open>
  \<^verbatim>\<open>/\.(jpg|jpeg|png|gif|webp)$/i\<close>: the subject ends, ignoring the case of ASCII
  letters, with a dot and one of the five extensions.
\<close>

definition IMAGE_EXTENSIONS :: "string list" where
  "IMAGE_EXTENSIONS = [''jpg'', ''jpeg'', ''png'', ''gif'', ''webp'']"

definition hasImageExtension :: "string \<Rightarrow> bool" where
  "hasImageExtension url =
     list_ex (\<lambda>ext. endsWith (map toLowerAscii url) (CHR ''.'' # ext)) IMAGE_EXTENSIONS"

definition detectLinkType :: "string \<Rightarrow> link_type" where
  "detectLinkType url =
     (if str_includes url ''github.com'' then Github
      else if str_includes url ''youtube.com'' \<or> str_includes url ''youtu.be'' then Video
      else if str_includes url ''x.com'' \<or> str_includes url ''twitter.com'' then
        (if str_includes url ''/i/article/'' then XArticle
         else if str_includes url ''/photo/'' \<or> str_includes url ''/video/'' then Media
         else Tweet)
      else if hasImageExtension url then Image
      else Article)"

section \<open>Data model\<close>

text \<open>
  The raw bookmark as the bird CLI prints it. Identifiers are strings. A field that may
  be missing is an \<open>option\<close>; \<open>truthy\<close> and \<open>str_or\<close> are JavaScript's
  truthiness of a possibly missing string and the idiom \<^verbatim>\<open>a || d\<close>.
\<close>

definition truthy :: "string option \<Rightarrow> bool" where
  "truthy a = (case a of None \<Rightarrow> False | Some s \<Rightarrow> s \<noteq> [])"

definition str_or :: "string option \<Rightarrow> string \<Rightarrow> string" where
  "str_or a d = (case a of None \<Rightarrow> d | Some s \<Rightarrow> if s = [] then d else s)"

text \<open>\<^verbatim>\<open>a || null\<close>\<close>

definition or_null :: "string option \<Rightarrow> string option" where
  "or_null a = (if truthy a then a else None)"

datatype media_item = MediaItem (media_type: string) (media_url: string)

record quoted_tweet =
  qt_id :: string
  qt_author_username :: "string option"
  qt_author_name :: "string option"
  qt_text :: "string option"

record raw_bookmark =
  b_id :: string
  b_text :: "string option"
  b_full_text :: "string option"
  b_createdAt :: "string option"
  b_author_username :: "string option"
  b_author_name :: "string option"
  b_user_screen_name :: "string option"
  b_user_name :: "string option"
  b_inReplyToStatusId :: "string option"
  b_quotedTweet :: "quoted_tweet option"
  b_media :: "media_item list option"
  b_folderTag :: "string option"
  b_folderId :: "string option"

text \<open>What \<^verbatim>\<open>bird read <id> --json\<close> prints, as far as the processor reads it.\<close>

record tweet_json =
  t_id :: string
  t_author_username :: "string option"
  t_author_name :: "string option"
  t_text :: "string option"
  t_full_text :: "string option"
  t_article_title :: "string option"

record tweet_context =
  c_id :: string
  c_author :: string
  c_authorName :: string
  c_text :: string
  c_tweetUrl :: string

record repo_json =
  r_name :: "string option"
  r_full_name :: "string option"
  r_description :: "string option"
  r_stargazers_count :: "int option"
  r_language :: "string option"
  r_topics :: "string list option"
  r_html_url :: "string option"

record github_content =
  g_name :: "string option"
  g_fullName :: "string option"
  g_description :: string
  g_stars :: "int option"
  g_language :: "string option"
  g_topics :: "string list"
  g_readme :: string
  g_url :: "string option"

record extracted =
  e_title :: "string option"
  e_description :: "string option"
  e_content :: "string option"

record summarized =
  s_title :: "string option"
  s_description :: "string option"
  s_text :: string

datatype error =
    FetchBookmarksFailed
  | FetchLikesFailed
  | InvalidSource string
  | GitHubUrlUnparsable
  | GitHubApiError
  | DirectFetchError
  | TypeError

text \<open>What \<open>fetchContent\<close> returns, by its \<^verbatim>\<open>source\<close> field.\<close>

datatype fetch_result =
    GithubResult github_content
  | SummarizeResult summarized
  | DirectResult string bool
  | PaywalledResult string

text \<open>The content stored with a link, by its \<^verbatim>\<open>source\<close> field.\<close>

datatype content =
    BirdCliContent "string option" string
  | QuoteTweetContent tweet_context
  | GithubApiContent github_content
  | SummarizeCliContent "string option" "string option" string
  | FallbackContent "string option" string "bool option"
  | ErrorContent error

record link =
  l_original :: string
  l_expanded :: string
  l_type :: link_type
  l_content :: "content option"

record prepared =
  p_id :: string
  p_author :: string
  p_authorName :: string
  p_text :: string
  p_tweetUrl :: string
  p_createdAt :: "string option"
  p_links :: "link list"
  p_media :: "media_item list"
  p_tags :: "string list"
  p_date :: string
  p_isReply :: bool
  p_replyContext :: "tweet_context option"
  p_isQuote :: bool
  p_quoteContext :: "tweet_context option"

section \<open>The outside world\<close>

text \<open>
  Every external collaborator is a function of the \<open>world\<close>: the bird CLI, the network,
  the GitHub API, the summarize CLI, the clock and the date library. \<open>None\<close> is a call
  that throws (a failed process, a network error, a timeout, output that does not parse).
  A collaborator answers a call by its arguments alone. \<open>parse_date\<close> is
  \<^verbatim>\<open>new Date(s).getTime()\<close>: the milliseconds since the epoch, or \<open>None\<close> for the NaN
  of a string that is not a date. \<open>engine_order\<close> is the order in which the engine's
  \<^verbatim>\<open>Array.prototype.sort\<close> leaves an array when the comparator is not consistent:
  \<open>engine_order w xs i\<close> ranks the element at index \<open>i\<close> of \<open>xs\<close>.
  Each function of the processor returns, next to its result, the list of external calls
  it made, in order.
\<close>

datatype bird_paging = AllPages nat | Count nat

datatype call =
    BirdBookmarks "string option" bird_paging
  | BirdLikes nat
  | BirdRead string
  | HttpHead string
  | GitHubRepo string string
  | GitHubReadme string string
  | SummarizeCli string
  | HttpGet string

record world =
  bird_bookmarks :: "string option \<Rightarrow> bird_paging \<Rightarrow> raw_bookmark list option"
  bird_likes :: "nat \<Rightarrow> raw_bookmark list option"
  bird_read :: "string \<Rightarrow> tweet_json option"
  http_head :: "string \<Rightarrow> string option"
  github_repo :: "string \<Rightarrow> string \<Rightarrow> repo_json option"
  github_readme :: "string \<Rightarrow> string \<Rightarrow> string option option"
  url_protocol :: "string \<Rightarrow> string option"
  summarize_cli :: "string \<Rightarrow> extracted option option"
  http_get :: "string \<Rightarrow> string option"
  format_date :: "string \<Rightarrow> string"
  parse_date :: "string \<Rightarrow> int option"
  engine_order :: "prepared list \<Rightarrow> nat \<Rightarrow> nat"
  today :: string
  now_iso :: string

section \<open>Link expansion and content resolution\<close>

text \<open>
  \<open>expandTcoLink\<close>: a HEAD request that follows redirects. The \<^verbatim>\<open>catch\<close> covers the
  network error, the timeout and the abort alike; \<open>Some u\<close> is a response whose
  \<^verbatim>\<open>url\<close> is \<open>u\<close>.
\<close>

definition expandTcoLink :: "world \<Rightarrow> string \<Rightarrow> string \<times> call list" where
  "expandTcoLink w url =
     (case http_head w url of
        Some u \<Rightarrow> (if u = [] then url else u, [HttpHead url])
      | None \<Rightarrow> (url, [HttpHead url]))"

text \<open>\<^verbatim>\<open>/x\.com\/i\/article\/(\d+)/\<close>\<close>

definition match_article_id :: "string \<Rightarrow> (string \<times> nat) option" where
  "match_article_id s =
     (if startsWith s ''x.com/i/article/'' then
        (let d = takeWhile is_digit (drop 16 s)
         in if d \<noteq> [] then Some (d, 16 + length d) else None)
      else None)"

definition extractXArticleId :: "string \<Rightarrow> string option" where
  "extractXArticleId url = firstMatch match_article_id url"

text \<open>\<^verbatim>\<open>/^\d+$/\<close>\<close>

definition is_numeric :: "string \<Rightarrow> bool" where
  "is_numeric s = (s \<noteq> [] \<and> list_all is_digit s)"

definition fetchXArticleContent :: "world \<Rightarrow> string \<Rightarrow> content option \<times> call list" where
  "fetchXArticleContent w articleId =
     (if \<not> is_numeric articleId then (None, [])
      else
        (case bird_read w articleId of
           Some data \<Rightarrow>
             (Some (BirdCliContent (or_null (t_article_title data)) (str_or (t_text data) [])),
              [BirdRead articleId])
         | None \<Rightarrow> (None, [BirdRead articleId])))"

definition fetchTweet :: "world \<Rightarrow> string \<Rightarrow> tweet_json option \<times> call list" where
  "fetchTweet w tweetId = (bird_read w tweetId, [BirdRead tweetId])"

text \<open>
  \<open>fetchArticleWithSummarize\<close>: \<open>url_protocol\<close> is the protocol \<^verbatim>\<open>new URL(url)\<close>
  finds, \<open>None\<close> when the URL does not parse.
\<close>

definition fetchArticleWithSummarize :: "world \<Rightarrow> string \<Rightarrow> summarized option \<times> call list" where
  "fetchArticleWithSummarize w url =
     (case url_protocol w url of
        None \<Rightarrow> (None, [])
      | Some protocol \<Rightarrow>
          if protocol \<notin> set [''http:'', ''https:''] then (None, [])
          else
            (case summarize_cli w url of
               None \<Rightarrow> (None, [SummarizeCli url])
             | Some None \<Rightarrow> (None, [SummarizeCli url])
             | Some (Some ex) \<Rightarrow>
                 (Some \<lparr>s_title = or_null (e_title ex),
                        s_description = or_null (e_description ex),
                        s_text = str_or (e_content ex) []\<rparr>,
                  [SummarizeCli url])))"

text \<open>\<^verbatim>\<open>/github\.com\/([^\/]+)\/([^\/]+)/\<close>, both groups captured.\<close>

definition match_github :: "string \<Rightarrow> ((string \<times> string) \<times> nat) option" where
  "match_github s =
     (if startsWith s ''github.com/'' then
        (let r1 = drop 11 s;
             owner = takeWhile (\<lambda>c. c \<noteq> CHR ''/'') r1;
             r2 = drop (length owner) r1
         in if owner \<noteq> [] \<and> startsWith r2 ''/'' then
              (let repo = takeWhile (\<lambda>c. c \<noteq> CHR ''/'') (drop 1 r2)
               in if repo \<noteq> [] then Some ((owner, repo), 11 + length owner + 1 + length repo)
                  else None)
            else None)
      else None)"

definition extractGitHubInfo :: "string \<Rightarrow> (string \<times> string) option" where
  "extractGitHubInfo url =
     (case firstMatch match_github url of
        None \<Rightarrow> None
      | Some (owner, repo) \<Rightarrow>
          Some (owner, if endsWith repo ''.git'' then take (length repo - 4) repo else repo))"

definition fetchGitHubContent :: "world \<Rightarrow> string \<Rightarrow> (error + github_content) \<times> call list" where
  "fetchGitHubContent w url =
     (case extractGitHubInfo url of
        None \<Rightarrow> (Inl GitHubUrlUnparsable, [])
      | Some (owner, repo) \<Rightarrow>
          (case github_repo w owner repo of
             None \<Rightarrow> (Inl GitHubApiError, [GitHubRepo owner repo])
           | Some repoJson \<Rightarrow>
               (let readme =
                      (case github_readme w owner repo of
                         Some (Some c) \<Rightarrow>
                           if c = [] then []
                           else if length c > 5000 then take 5000 c @ [CHR 0x0A] @ ''...[truncated]''
                           else c
                       | _ \<Rightarrow> [])
                in (Inr \<lparr>g_name = r_name repoJson,
                         g_fullName = r_full_name repoJson,
                         g_description = str_or (r_description repoJson) [],
                         g_stars = r_stargazers_count repoJson,
                         g_language = r_language repoJson,
                         g_topics = (case r_topics repoJson of Some ts \<Rightarrow> ts | None \<Rightarrow> []),
                         g_readme = readme,
                         g_url = r_html_url repoJson\<rparr>,
                    [GitHubRepo owner repo, GitHubReadme owner repo]))))"

definition fetchArticleContent :: "world \<Rightarrow> string \<Rightarrow> (error + fetch_result) \<times> call list" where
  "fetchArticleContent w url =
     (let (summarized, c1) = fetchArticleWithSummarize w url
      in case (case summarized of Some sm \<Rightarrow> if s_text sm \<noteq> [] then Some sm else None
               | None \<Rightarrow> None) of
           Some sm \<Rightarrow> (Inr (SummarizeResult sm), c1)
         | None \<Rightarrow>
             (case http_get w url of
                None \<Rightarrow> (Inl DirectFetchError, c1 @ [HttpGet url])
              | Some text \<Rightarrow>
                  (let result = take 50000 text
                   in if str_includes result ''Subscribe'' \<and> str_includes result ''sign in''
                         \<or> str_includes result ''This article is for subscribers''
                         \<or> length result < 1000
                      then (Inr (DirectResult result True), c1 @ [HttpGet url])
                      else (Inr (DirectResult result False), c1 @ [HttpGet url]))))"

definition fetchContent :: "world \<Rightarrow> string \<Rightarrow> link_type \<Rightarrow> (error + fetch_result) \<times> call list" where
  "fetchContent w url type =
     (let (ghContent, c1) =
            (if type = Github then
               (case fetchGitHubContent w url of
                  (Inr gh, c) \<Rightarrow> (Some gh, c)
                | (Inl e, c) \<Rightarrow> (None, c))
             else (None, []))
      in case ghContent of
           Some gh \<Rightarrow> (Inr (GithubResult gh), c1)
         | None \<Rightarrow>
             if isPaywalled url then (Inr (PaywalledResult url), c1)
             else (let (r, c2) = fetchArticleContent w url in (r, c1 @ c2)))"

section \<open>Preparing one bookmark\<close>

text \<open>\<^verbatim>\<open>/https?:\/\/t\.co\/\w+/g\<close>; the whole match is what is wanted.\<close>

definition match_tco :: "string \<Rightarrow> (string \<times> nat) option" where
  "match_tco s =
     (let n = (if startsWith s ''https://t.co/'' then 13
               else if startsWith s ''http://t.co/'' then 12 else 0);
          ws = takeWhile is_word (drop n s)
      in if n \<noteq> 0 \<and> ws \<noteq> [] then Some (take (n + length ws) s, n + length ws) else None)"

text \<open>\<^verbatim>\<open>/status\/(\d+)/\<close>\<close>

definition match_status :: "string \<Rightarrow> (string \<times> nat) option" where
  "match_status s =
     (if startsWith s ''status/'' then
        (let d = takeWhile is_digit (drop 7 s)
         in if d \<noteq> [] then Some (d, 7 + length d) else None)
      else None)"

text \<open>
  The record built from a post that \<open>fetchTweet\<close> returned: the quoted post of a link
  and the parent of a reply are built the same way.
\<close>

definition tweetContext :: "tweet_json \<Rightarrow> tweet_context" where
  "tweetContext t =
     \<lparr>c_id = t_id t,
      c_author = str_or (t_author_username t) ''unknown'',
      c_authorName = str_or (t_author_name t) (str_or (t_author_username t) ''unknown''),
      c_text = str_or (t_text t) (str_or (t_full_text t) []),
      c_tweetUrl = ''https://x.com/'' @ str_or (t_author_username t) ''unknown''
                     @ ''/status/'' @ t_id t\<rparr>"

definition nativeQuoteContext :: "quoted_tweet \<Rightarrow> tweet_context" where
  "nativeQuoteContext qt =
     \<lparr>c_id = qt_id qt,
      c_author = str_or (qt_author_username qt) ''unknown'',
      c_authorName = str_or (qt_author_name qt) (str_or (qt_author_username qt) ''unknown''),
      c_text = str_or (qt_text qt) [],
      c_tweetUrl = ''https://x.com/'' @ str_or (qt_author_username qt) ''unknown''
                     @ ''/status/'' @ qt_id qt\<rparr>"

text \<open>The content record the pipeline stores for what \<open>fetchContent\<close> returned.\<close>

fun contentOfFetchResult :: "fetch_result \<Rightarrow> content" where
  "contentOfFetchResult (GithubResult gh) = GithubApiContent gh"
| "contentOfFetchResult (SummarizeResult sm) =
     SummarizeCliContent (s_title sm) (s_description sm) (take 50000 (s_text sm))"
| "contentOfFetchResult (DirectResult text paywalled) =
     FallbackContent (Some (take 10000 text)) ''direct'' (Some paywalled)"
| "contentOfFetchResult (PaywalledResult url) = FallbackContent None ''paywalled'' None"

text \<open>The body of the loop over the t.co links of one bookmark.\<close>

definition processLink :: "world \<Rightarrow> raw_bookmark \<Rightarrow> string \<Rightarrow> link \<times> call list" where
  "processLink w bookmark lnk =
     (let (expanded, c0) = expandTcoLink w lnk;
          type = detectLinkType expanded;
          (content, c1) =
            (if type = XArticle then fetchXArticleContent w (b_id bookmark)
             else if type = Tweet then
               (case firstMatch match_status expanded of
                  None \<Rightarrow> (None, [])
                | Some quotedTweetId \<Rightarrow>
                    (let (quotedTweet, c) = fetchTweet w quotedTweetId
                     in (map_option (\<lambda>t. QuoteTweetContent (tweetContext t)) quotedTweet, c)))
             else if type = Article \<or> type = Github then
               (case fetchContent w expanded type of
                  (Inr fetchResult, c) \<Rightarrow> (Some (contentOfFetchResult fetchResult), c)
                | (Inl e, c) \<Rightarrow> (Some (ErrorContent e), c))
             else (None, []))
      in (\<lparr>l_original = lnk, l_expanded = expanded, l_type = type, l_content = content\<rparr>,
          c0 @ c1))"

fun processLinks :: "world \<Rightarrow> raw_bookmark \<Rightarrow> string list \<Rightarrow> link list \<times> call list" where
  "processLinks w bookmark [] = ([], [])"
| "processLinks w bookmark (lnk # rest) =
     (let (l, c) = processLink w bookmark lnk;
          (ls, cs) = processLinks w bookmark rest
      in (l # ls, c @ cs))"

text \<open>
  The body of the loop over the bookmarks to process. \<open>includeMedia\<close> is
  \<^verbatim>\<open>configWithOptions.includeMedia\<close>. Nothing in the body throws on a record of this
  shape, so the \<^verbatim>\<open>catch\<close> around it is never entered.
\<close>

definition prepareBookmark :: "world \<Rightarrow> bool \<Rightarrow> raw_bookmark \<Rightarrow> prepared \<times> call list" where
  "prepareBookmark w includeMedia bookmark =
     (let text = str_or (b_text bookmark) (str_or (b_full_text bookmark) []);
          date = (case b_createdAt bookmark of
                    Some createdAt \<Rightarrow> if createdAt \<noteq> [] then format_date w createdAt else today w
                  | None \<Rightarrow> today w);
          author = str_or (b_author_username bookmark)
                     (str_or (b_user_screen_name bookmark) ''unknown'');
          tcoLinks = matchAll match_tco text;
          (links, c1) = processLinks w bookmark tcoLinks;
          (replyContext, c2) =
            (case b_inReplyToStatusId bookmark of
               Some parentId \<Rightarrow>
                 if parentId \<noteq> [] then
                   (let (parentTweet, c) = fetchTweet w parentId
                    in (map_option tweetContext parentTweet, c))
                 else (None, [])
             | None \<Rightarrow> (None, []));
          quoteContext = map_option nativeQuoteContext (b_quotedTweet bookmark);
          media = (if includeMedia
                   then (case b_media bookmark of Some m \<Rightarrow> m | None \<Rightarrow> []) else []);
          tags = (case b_folderTag bookmark of
                    Some tag \<Rightarrow> if tag \<noteq> [] then [tag] else []
                  | None \<Rightarrow> [])
      in (\<lparr>p_id = b_id bookmark,
           p_author = author,
           p_authorName = str_or (b_author_name bookmark) (str_or (b_user_name bookmark) author),
           p_text = text,
           p_tweetUrl = ''https://x.com/'' @ author @ ''/status/'' @ b_id bookmark,
           p_createdAt = b_createdAt bookmark,
           p_links = links,
           p_media = media,
           p_tags = tags,
           p_date = date,
           p_isReply = truthy (b_inReplyToStatusId bookmark),
           p_replyContext = replyContext,
           p_isQuote = (quoteContext \<noteq> None),
           p_quoteContext = quoteContext\<rparr>,
          c1 @ c2))"

fun prepareAll :: "world \<Rightarrow> bool \<Rightarrow> raw_bookmark list \<Rightarrow> prepared list \<times> call list" where
  "prepareAll w includeMedia [] = ([], [])"
| "prepareAll w includeMedia (bookmark # rest) =
     (let (p, c) = prepareBookmark w includeMedia bookmark;
          (ps, cs) = prepareAll w includeMedia rest
      in (p # ps, c @ cs))"

section \<open>Fetching the batch\<close>

record fetch_options =
  fo_all :: bool
  fo_maxPages :: "nat option"
  fo_folderId :: "string option"

text \<open>
  \<open>bookmarksCmd\<close> is the command line \<open>fetchBookmarks\<close> builds: a folder id that is
  missing or empty gives the command without \<^verbatim>\<open>--folder-id\<close>, and a page limit that is
  missing or zero gives ten pages. Whatever fails inside the \<^verbatim>\<open>try\<close> of
  \<open>fetchBookmarks\<close> is rethrown as the one error.
\<close>

definition bookmarksCmd :: "nat \<Rightarrow> fetch_options \<Rightarrow> string option \<times> bird_paging" where
  "bookmarksCmd cnt opts =
     (let useAll = (fo_all opts \<or> cnt > 50);
          folderId = (if truthy (fo_folderId opts) then fo_folderId opts else None);
          paging = (if useAll
                    then AllPages (case fo_maxPages opts of
                                     Some n \<Rightarrow> if n = 0 then 10 else n | None \<Rightarrow> 10)
                    else Count cnt)
      in (folderId, paging))"

definition fetchBookmarks ::
  "world \<Rightarrow> nat \<Rightarrow> fetch_options \<Rightarrow> (error + raw_bookmark list) \<times> call list" where
  "fetchBookmarks w cnt opts =
     (let (folderId, paging) = bookmarksCmd cnt opts
      in case bird_bookmarks w folderId paging of
           Some tweets \<Rightarrow> (Inr tweets, [BirdBookmarks folderId paging])
         | None \<Rightarrow> (Inl FetchBookmarksFailed, [BirdBookmarks folderId paging]))"

definition fetchLikes :: "world \<Rightarrow> nat \<Rightarrow> (error + raw_bookmark list) \<times> call list" where
  "fetchLikes w cnt =
     (case bird_likes w cnt of
        Some tweets \<Rightarrow> (Inr tweets, [BirdLikes cnt])
      | None \<Rightarrow> (Inl FetchLikesFailed, [BirdLikes cnt]))"

text \<open>The merge of \<open>fetchFromSource\<close>: the first record of each identifier is kept.\<close>

fun dedupeById :: "string set \<Rightarrow> raw_bookmark list \<Rightarrow> raw_bookmark list" where
  "dedupeById seen [] = []"
| "dedupeById seen (item # rest) =
     (if b_id item \<notin> seen then item # dedupeById (insert (b_id item) seen) rest
      else dedupeById seen rest)"

text \<open>
  \<open>fetchFromSource\<close> reads the source in the configuration it is given:
  \<^verbatim>\<open>config.source || 'bookmarks'\<close>.
\<close>

definition fetchFromSource ::
  "world \<Rightarrow> string option \<Rightarrow> nat \<Rightarrow> fetch_options
     \<Rightarrow> (error + raw_bookmark list) \<times> call list" where
  "fetchFromSource w configSource cnt opts =
     (let source = str_or configSource ''bookmarks''
      in if source = ''bookmarks'' then fetchBookmarks w cnt opts
         else if source = ''likes'' then fetchLikes w cnt
         else if source = ''both'' then
           (case fetchBookmarks w cnt opts of
              (Inl e, c1) \<Rightarrow> (Inl e, c1)
            | (Inr bookmarks, c1) \<Rightarrow>
                (case fetchLikes w cnt of
                   (Inl e, c2) \<Rightarrow> (Inl e, c1 @ c2)
                 | (Inr likes, c2) \<Rightarrow> (Inr (dedupeById {} (bookmarks @ likes)), c1 @ c2)))
         else (Inl (InvalidSource source), []))"

text \<open>
  \<open>fetchFromFolders\<close>: the folders are the pairs of folder id and tag, in the order
  \<^verbatim>\<open>Object.keys\<close> gives. \<open>tagNew\<close> is the inner loop, which tags and keeps the
  bookmarks not seen in an earlier folder; a folder whose fetch fails is skipped.
\<close>

fun tagNew ::
  "string \<Rightarrow> string \<Rightarrow> string set \<Rightarrow> raw_bookmark list \<Rightarrow> raw_bookmark list \<times> string set" where
  "tagNew folderId folderTag seen [] = ([], seen)"
| "tagNew folderId folderTag seen (bookmark # rest) =
     (if b_id bookmark \<notin> seen then
        (let (bs, seen') = tagNew folderId folderTag (insert (b_id bookmark) seen) rest
         in (bookmark\<lparr>b_folderTag := Some folderTag, b_folderId := Some folderId\<rparr> # bs, seen'))
      else tagNew folderId folderTag seen rest)"

fun foldersLoop ::
  "world \<Rightarrow> nat \<Rightarrow> fetch_options \<Rightarrow> string set \<Rightarrow> (string \<times> string) list
     \<Rightarrow> raw_bookmark list \<times> call list" where
  "foldersLoop w cnt opts seen [] = ([], [])"
| "foldersLoop w cnt opts seen ((folderId, folderTag) # rest) =
     (case fetchBookmarks w cnt (opts\<lparr>fo_folderId := Some folderId\<rparr>) of
        (Inr bookmarks, c) \<Rightarrow>
          (let (added, seen') = tagNew folderId folderTag seen bookmarks;
               (bs, cs) = foldersLoop w cnt opts seen' rest
           in (added @ bs, c @ cs))
      | (Inl e, c) \<Rightarrow>
          (let (bs, cs) = foldersLoop w cnt opts seen rest in (bs, c @ cs)))"

definition fetchFromFolders ::
  "world \<Rightarrow> (string \<times> string) list \<Rightarrow> nat \<Rightarrow> fetch_options \<Rightarrow> raw_bookmark list \<times> call list" where
  "fetchFromFolders w folders cnt opts = foldersLoop w cnt opts {} folders"

section \<open>Files, options and configuration\<close>

text \<open>
  The three files of a run, by what the processor reads in them. The archive is text,
  \<open>None\<close> when it cannot be read. The pending file is absent, or corrupt (it does not
  parse, or not to a JSON object), or a JSON object, of which the processor reads the
  \<^verbatim>\<open>bookmarks\<close>: the key is missing, or its value is not an array, or it holds the
  records of the queue. The state file is \<open>None\<close> when it is missing or does not parse;
  otherwise it parses to an object, to an array, or to a primitive value (null, a number,
  a string, a boolean).
\<close>

record run_state =
  last_processed_id :: "string option"
  last_check :: "string option"
  last_processing_run :: "string option"

datatype state_json = StateObject run_state | StateArray | StatePrimitive

datatype bookmarks_field = KeyMissing | NotAnArray | Records "prepared list"

datatype pending_file =
    PendingAbsent
  | PendingCorrupt
  | PendingDoc (d_generatedAt: string) (d_count: nat) (d_bookmarks: bookmarks_field)

record files =
  archiveFile :: "string option"
  pendingFile :: pending_file
  stateFile :: "state_json option"

record options =
  o_source :: "string option"
  o_includeMedia :: "bool option"
  o_count :: "nat option"
  o_all :: bool
  o_maxPages :: "nat option"
  o_specificIds :: "string list option"
  o_force :: bool

text \<open>
  The configuration, which \<^verbatim>\<open>loadConfig\<close> of \<^verbatim>\<open>config.js\<close> returns, is taken as
  it is; only the fields that decide what the processor does are kept.
\<close>

record config =
  cfg_source :: "string option"
  cfg_includeMedia :: "bool option"
  cfg_folders :: "(string \<times> string) list"

record run_result =
  res_bookmarks :: "prepared list"
  res_count :: nat
  res_pendingFile :: bool

text \<open>\<open>loadState\<close> returns whatever the state file parses to, and the default otherwise.\<close>

definition loadState :: "files \<Rightarrow> state_json" where
  "loadState fs =
     (case stateFile fs of
        Some st \<Rightarrow> st
      | None \<Rightarrow> StateObject
                 \<lparr>last_processed_id = None, last_check = None, last_processing_run = None\<rparr>)"

text \<open>
  \<^verbatim>\<open>state.last_check = now.toISOString()\<close>, in the strict mode of a module: the
  assignment throws on a primitive value; on an array it sets a property that
  \<^verbatim>\<open>JSON.stringify\<close> does not write.
\<close>

fun setLastCheck :: "state_json \<Rightarrow> string \<Rightarrow> error + state_json" where
  "setLastCheck (StateObject st) now = Inr (StateObject (st\<lparr>last_check := Some now\<rparr>))"
| "setLastCheck StateArray now = Inr StateArray"
| "setLastCheck StatePrimitive now = Inl TypeError"

definition saveState :: "files \<Rightarrow> state_json \<Rightarrow> files" where
  "saveState fs st = fs\<lparr>stateFile := Some st\<rparr>"

text \<open>\<^verbatim>\<open>/x\.com\/\w+\/status\/(\d+)/g\<close>\<close>

definition match_archive_status :: "string \<Rightarrow> (string \<times> nat) option" where
  "match_archive_status s =
     (if startsWith s ''x.com/'' then
        (let r1 = drop 6 s;
             user = takeWhile is_word r1;
             r2 = drop (length user) r1
         in if user \<noteq> [] \<and> startsWith r2 ''/status/'' then
              (let d = takeWhile is_digit (drop 8 r2)
               in if d \<noteq> [] then Some (d, 6 + length user + 8 + length d) else None)
            else None)
      else None)"

definition getExistingBookmarkIds :: "files \<Rightarrow> string set" where
  "getExistingBookmarkIds fs =
     (case archiveFile fs of
        Some content \<Rightarrow> set (matchAll match_archive_status content)
      | None \<Rightarrow> {})"

section \<open>The run\<close>

text \<open>
  The first read of the pending file, for the identifiers that are pending: whatever goes
  wrong in it is caught, and leaves no identifier.
\<close>

definition pendingBookmarks :: "files \<Rightarrow> prepared list" where
  "pendingBookmarks fs =
     (case pendingFile fs of
        PendingDoc g n (Records bs) \<Rightarrow> bs
      | _ \<Rightarrow> [])"

definition pendingIds :: "files \<Rightarrow> string set" where
  "pendingIds fs = set (map p_id (pendingBookmarks fs))"

text \<open>
  The second read, for the merge: \<^verbatim>\<open>{ bookmarks: parsed.bookmarks || [], ...parsed }\<close>
  keeps the value of a \<^verbatim>\<open>bookmarks\<close> key that is present, and
  \<^verbatim>\<open>existingPending.bookmarks.map\<close> throws, outside the \<^verbatim>\<open>try\<close>, when that value is
  not an array.
\<close>

definition existingPending :: "files \<Rightarrow> error + prepared list" where
  "existingPending fs =
     (case pendingFile fs of
        PendingDoc g n (Records bs) \<Rightarrow> Inr bs
      | PendingDoc g n NotAnArray \<Rightarrow> Inl TypeError
      | _ \<Rightarrow> Inr [])"

text \<open>The tweets to process, as the run determines them.\<close>

definition toProcess ::
  "options \<Rightarrow> string set \<Rightarrow> string set \<Rightarrow> raw_bookmark list \<Rightarrow> raw_bookmark list" where
  "toProcess opts existingIds pending tweets =
     (case o_specificIds opts of
        Some specificIds \<Rightarrow> filter (\<lambda>b. b_id b \<in> set specificIds) tweets
      | None \<Rightarrow>
          if o_force opts then tweets
          else filter (\<lambda>b. b_id b \<notin> existingIds \<and> b_id b \<notin> pending) tweets)"

text \<open>
  The comparator of the merge. \<open>timestamp\<close> is \<^verbatim>\<open>dateA\<close> (and \<^verbatim>\<open>dateB\<close>):
  \<^verbatim>\<open>a.createdAt ? new Date(a.createdAt).getTime() : 0\<close>, with \<open>None\<close> for NaN.
  \<open>compareFn\<close> is \<^verbatim>\<open>dateA - dateB\<close>, which is NaN when either is.
\<close>

definition timestamp :: "world \<Rightarrow> prepared \<Rightarrow> int option" where
  "timestamp w a =
     (case p_createdAt a of
        Some createdAt \<Rightarrow> if createdAt \<noteq> [] then parse_date w createdAt else Some 0
      | None \<Rightarrow> Some 0)"

definition compareFn :: "world \<Rightarrow> prepared \<Rightarrow> prepared \<Rightarrow> int option" where
  "compareFn w a b =
     (case (timestamp w a, timestamp w b) of
        (Some dateA, Some dateB) \<Rightarrow> Some (dateA - dateB)
      | _ \<Rightarrow> None)"

text \<open>
  \<^verbatim>\<open>Array.prototype.sort\<close> with this comparator, as ECMAScript specifies it. The sort
  reads a comparator result that is NaN as \<open>+0\<close> (\<open>sortCompare\<close>). It is stable, and
  when the comparator is consistent on the array the result is in the comparator's
  order. This comparator is consistent when every timestamp is a number, and the result
  is then the stable sort by timestamp; with a NaN among the timestamps it is consistent
  only when every comparison gives zero, and the array then stays as it is. Otherwise the
  order is left to the engine: the result holds the same elements, in the order of
  \<open>engine_order\<close>.
\<close>

definition sortCompare :: "world \<Rightarrow> prepared \<Rightarrow> prepared \<Rightarrow> int" where
  "sortCompare w a b = (case compareFn w a b of Some v \<Rightarrow> v | None \<Rightarrow> 0)"

definition arraySort :: "world \<Rightarrow> prepared list \<Rightarrow> prepared list" where
  "arraySort w xs =
     (if list_all (\<lambda>a. timestamp w a \<noteq> None) xs
      then sort_key (\<lambda>a. case timestamp w a of Some t \<Rightarrow> t | None \<Rightarrow> 0) xs
      else if list_all (\<lambda>a. list_all (\<lambda>b. sortCompare w a b = 0) xs) xs then xs
      else map snd (sort_key (\<lambda>(i, a). engine_order w xs i) (enumerate 0 xs)))"

definition newBookmarks :: "prepared list \<Rightarrow> prepared list \<Rightarrow> prepared list" where
  "newBookmarks existing prepared =
     filter (\<lambda>b. p_id b \<notin> set (map p_id existing)) prepared"

text \<open>The merged queue: the existing entries and the new records, sorted.\<close>

definition allBookmarks :: "world \<Rightarrow> prepared list \<Rightarrow> prepared list \<Rightarrow> prepared list" where
  "allBookmarks w existing prepared = arraySort w (existing @ newBookmarks existing prepared)"

definition emptyResult :: run_result where
  "emptyResult = \<lparr>res_bookmarks = [], res_count = 0, res_pendingFile = False\<rparr>"

text \<open>
  The settings a run derives from its options and configuration:
  \<^verbatim>\<open>options.source || config.source || 'bookmarks'\<close>,
  \<^verbatim>\<open>options.includeMedia ?? config.includeMedia ?? false\<close>, \<^verbatim>\<open>options.count || 20\<close>
  and the options of the paginated fetch.
\<close>

definition runSource :: "config \<Rightarrow> options \<Rightarrow> string" where
  "runSource cfg opts = str_or (o_source opts) (str_or (cfg_source cfg) ''bookmarks'')"

definition runIncludeMedia :: "config \<Rightarrow> options \<Rightarrow> bool" where
  "runIncludeMedia cfg opts =
     (case o_includeMedia opts of
        Some m \<Rightarrow> m
      | None \<Rightarrow> (case cfg_includeMedia cfg of Some m \<Rightarrow> m | None \<Rightarrow> False))"

definition runCount :: "options \<Rightarrow> nat" where
  "runCount opts = (case o_count opts of Some n \<Rightarrow> if n = 0 then 20 else n | None \<Rightarrow> 20)"

definition runFetchOptions :: "options \<Rightarrow> fetch_options" where
  "runFetchOptions opts =
     \<lparr>fo_all = (o_all opts \<or> runCount opts > 50),
      fo_maxPages = o_maxPages opts,
      fo_folderId = None\<rparr>"

text \<open>
  The run returns its result or the error it throws, the files as it leaves them, and
  the external calls it made. It throws when the fetch of the batch does, when the
  \<^verbatim>\<open>bookmarks\<close> of the pending file are not an array (before anything is written), and
  when the state is a primitive value (after the pending file is written).
\<close>

definition fetchAndPrepareBookmarks ::
  "world \<Rightarrow> config \<Rightarrow> options \<Rightarrow> files \<Rightarrow> (error + run_result) \<times> files \<times> call list" where
  "fetchAndPrepareBookmarks w cfg opts fs =
     (let state = loadState fs;
          source = runSource cfg opts;
          includeMedia = runIncludeMedia cfg opts;
          cnt = runCount opts;
          fetchOptions = runFetchOptions opts;
          hasFolders = (cfg_folders cfg \<noteq> []);
          (fetched, c1) =
            (if hasFolders \<and> source = ''bookmarks''
             then (let (ts, c) = fetchFromFolders w (cfg_folders cfg) cnt fetchOptions
                   in (Inr ts, c))
             else fetchFromSource w (Some source) cnt fetchOptions)
      in case fetched of
           Inl e \<Rightarrow> (Inl e, fs, c1)
         | Inr tweets \<Rightarrow>
             if tweets = [] then (Inr emptyResult, fs, c1)
             else
               (let selected = toProcess opts (getExistingBookmarkIds fs) (pendingIds fs) tweets
                in if selected = [] then (Inr emptyResult, fs, c1)
                   else
                     (let (prepared, c2) = prepareAll w includeMedia selected
                      in case existingPending fs of
                           Inl e \<Rightarrow> (Inl e, fs, c1 @ c2)
                         | Inr existing \<Rightarrow>
                             (let merged = allBookmarks w existing prepared;
                                  fs1 = fs\<lparr>pendingFile :=
                                            PendingDoc (now_iso w) (length merged)
                                              (Records merged)\<rparr>
                              in case setLastCheck state (now_iso w) of
                                   Inl e \<Rightarrow> (Inl e, fs1, c1 @ c2)
                                 | Inr state' \<Rightarrow>
                                     (Inr \<lparr>res_bookmarks = prepared,
                                           res_count = length prepared,
                                           res_pendingFile = True\<rparr>,
                                      saveState fs1 state', c1 @ c2)))))"

section \<open>Sample worlds and inputs\<close>

text \<open>
  Concrete inputs on which the theorems below are instantiated. In \<open>offline\<close> every
  external call fails, and \<open>sampleDates\<close> are the strings that parse as dates, with
  the value \<^verbatim>\<open>getTime()\<close> gives them. In \<open>redirecting target\<close> every short link
  expands to \<open>target\<close>. \<open>insertingEngine\<close> leaves an array of four elements in the
  order in which the last element is inserted between the second and the third. In
  \<open>githubDown\<close> the GitHub API fails while the summarize CLI
  answers. In \<open>flakyFolders\<close> the fetch of folder \<open>1\<close> fails and the fetch of any other
  folder returns one bookmark.
\<close>

definition sampleDates :: "string \<Rightarrow> int option" where
  "sampleDates =
     map_of [(''2026-01-15'', 1768435200000), (''2026-01-02'', 1767312000000),
             (''2026-01-01'', 1767225600000), (''2025'', 1735689600000),
             (''1969-12-31'', - 86400000)]"

definition offline :: world where
  "offline =
     \<lparr>bird_bookmarks = (\<lambda>folder paging. None),
      bird_likes = (\<lambda>n. None),
      bird_read = (\<lambda>ident. None),
      http_head = (\<lambda>url. None),
      github_repo = (\<lambda>owner repo. None),
      github_readme = (\<lambda>owner repo. None),
      url_protocol = (\<lambda>url. None),
      summarize_cli = (\<lambda>url. None),
      http_get = (\<lambda>url. None),
      format_date = (\<lambda>s. s),
      parse_date = sampleDates,
      engine_order = (\<lambda>xs i. i),
      today = ''Tuesday, November 3, 2026'',
      now_iso = ''2026-11-03T12:00:00.000Z''\<rparr>"

definition redirecting :: "string \<Rightarrow> world" where
  "redirecting target = offline\<lparr>http_head := (\<lambda>url. Some target)\<rparr>"

definition insertingEngine :: world where
  "insertingEngine =
     offline\<lparr>engine_order := (\<lambda>xs i. if i = 2 then 3 else if i = 3 then 2 else i)\<rparr>"

definition githubDown :: world where
  "githubDown =
     offline\<lparr>url_protocol := (\<lambda>url. Some ''https:''),
              summarize_cli := (\<lambda>url. Some (Some \<lparr>e_title = Some ''Title'',
                                                   e_description = None,
                                                   e_content = Some ''body''\<rparr>))\<rparr>"

definition sampleTweet :: "string \<Rightarrow> string option \<Rightarrow> raw_bookmark" where
  "sampleTweet ident created =
     \<lparr>b_id = ident, b_text = Some ''hello'', b_full_text = None, b_createdAt = created,
      b_author_username = Some ''alice'', b_author_name = None, b_user_screen_name = None,
      b_user_name = None, b_inReplyToStatusId = None, b_quotedTweet = None,
      b_media = Some [MediaItem ''photo'' ''https://pbs.twimg.com/media/a.jpg''],
      b_folderTag = None, b_folderId = None\<rparr>"

definition flakyFolders :: world where
  "flakyFolders =
     offline\<lparr>bird_bookmarks :=
               (\<lambda>folder paging. if folder = Some ''1'' then None
                                else Some [sampleTweet ''10'' None])\<rparr>"

definition samplePrepared :: "string \<Rightarrow> string option \<Rightarrow> prepared" where
  "samplePrepared ident created =
     \<lparr>p_id = ident, p_author = ''alice'', p_authorName = ''alice'', p_text = ''hello'',
      p_tweetUrl = ''https://x.com/alice/status/'' @ ident, p_createdAt = created,
      p_links = [], p_media = [], p_tags = [], p_date = ''Tuesday, November 3, 2026'',
      p_isReply = False, p_replyContext = None, p_isQuote = False, p_quoteContext = None\<rparr>"

definition noFiles :: files where
  "noFiles = \<lparr>archiveFile = None, pendingFile = PendingAbsent, stateFile = None\<rparr>"

definition defaultOptions :: options where
  "defaultOptions =
     \<lparr>o_source = None, o_includeMedia = None, o_count = None, o_all = False,
      o_maxPages = None, o_specificIds = None, o_force = False\<rparr>"

definition forcedSubset :: options where
  "forcedSubset = defaultOptions\<lparr>o_specificIds := Some [''1''], o_force := True\<rparr>"

definition noFolders :: config where
  "noFolders = \<lparr>cfg_source = None, cfg_includeMedia = None, cfg_folders = []\<rparr>"

definition twoFolders :: config where
  "twoFolders =
     \<lparr>cfg_source = None, cfg_includeMedia = None,
      cfg_folders = [(''1'', ''reading''), (''2'', ''tools'')]\<rparr>"

text \<open>The conditions of the classifier, named.\<close>

abbreviation isCodeHost :: "string \<Rightarrow> bool" where
  "isCodeHost url \<equiv> str_includes url ''github.com''"

abbreviation isVideoHost :: "string \<Rightarrow> bool" where
  "isVideoHost url \<equiv> str_includes url ''youtube.com'' \<or> str_includes url ''youtu.be''"

abbreviation isSocialHost :: "string \<Rightarrow> bool" where
  "isSocialHost url \<equiv> str_includes url ''x.com'' \<or> str_includes url ''twitter.com''"

section \<open>Facts about the string functions\<close>

lemma startsWith_iff: "startsWith s p \<longleftrightarrow> (\<exists>q. s = p @ q)"
  by (induction s p rule: startsWith.induct) auto

lemma str_includes_iff: "str_includes s sub \<longleftrightarrow> (\<exists>p q. s = p @ sub @ q)"
proof (induction s)
  case Nil
  then show ?case by auto
next
  case (Cons c cs)
  show ?case
  proof
    assume "str_includes (c # cs) sub"
    then consider "startsWith (c # cs) sub" | "str_includes cs sub" by auto
    then show "\<exists>p q. c # cs = p @ sub @ q"
    proof cases
      case 1
      then obtain q where "c # cs = sub @ q" by (auto simp: startsWith_iff)
      then have "c # cs = [] @ sub @ q" by simp
      then show ?thesis by blast
    next
      case 2
      then obtain p q where "cs = p @ sub @ q" using Cons.IH by auto
      then have "c # cs = (c # p) @ sub @ q" by simp
      then show ?thesis by blast
    qed
  next
    assume "\<exists>p q. c # cs = p @ sub @ q"
    then obtain p q where pq: "c # cs = p @ sub @ q" by auto
    show "str_includes (c # cs) sub"
    proof (cases p)
      case Nil
      with pq have "startsWith (c # cs) sub" by (auto simp: startsWith_iff)
      then show ?thesis by simp
    next
      case (Cons a p')
      with pq have "cs = p' @ sub @ q" by simp
      then have "str_includes cs sub" using Cons.IH by auto
      then show ?thesis by simp
    qed
  qed
qed

lemma endsWith_iff: "endsWith s suffix \<longleftrightarrow> (\<exists>stem. s = stem @ suffix)"
proof
  assume "endsWith s suffix"
  then obtain q where "rev s = rev suffix @ q" by (auto simp: endsWith_def startsWith_iff)
  then have "s = rev q @ suffix" by (metis rev_append rev_rev_ident)
  then show "\<exists>stem. s = stem @ suffix" by blast
next
  assume "\<exists>stem. s = stem @ suffix"
  then show "endsWith s suffix" by (auto simp: endsWith_def startsWith_iff)
qed

lemma toLowerAscii_dot: "toLowerAscii c = CHR ''.'' \<Longrightarrow> c = CHR ''.''"
  by (simp add: toLowerAscii_def split: if_splits)

lemma map_eq_dot_Cons:
  assumes "map toLowerAscii url = stem' @ CHR ''.'' # ext"
  shows "\<exists>stem e. url = stem @ CHR ''.'' # e \<and> map toLowerAscii e = ext"
proof -
  from assms obtain a b where ab: "url = a @ b" "map toLowerAscii a = stem'"
      "map toLowerAscii b = CHR ''.'' # ext"
    by (auto simp: map_eq_append_conv)
  then obtain c e where "b = c # e" "toLowerAscii c = CHR ''.''" "map toLowerAscii e = ext"
    by (auto simp: map_eq_Cons_conv)
  with ab toLowerAscii_dot show ?thesis by blast
qed

lemma hasImageExtension_iff:
  "hasImageExtension url \<longleftrightarrow>
     (\<exists>stem ext. url = stem @ CHR ''.'' # ext \<and> map toLowerAscii ext \<in> set IMAGE_EXTENSIONS)"
proof
  assume "hasImageExtension url"
  then obtain x stem' where x: "x \<in> set IMAGE_EXTENSIONS"
      "map toLowerAscii url = stem' @ CHR ''.'' # x"
    by (auto simp: hasImageExtension_def list_ex_iff endsWith_iff)
  from map_eq_dot_Cons[OF x(2)] x(1)
  show "\<exists>stem ext. url = stem @ CHR ''.'' # ext \<and> map toLowerAscii ext \<in> set IMAGE_EXTENSIONS"
    by blast
next
  assume "\<exists>stem ext. url = stem @ CHR ''.'' # ext \<and> map toLowerAscii ext \<in> set IMAGE_EXTENSIONS"
  then obtain stem ext where u: "url = stem @ CHR ''.'' # ext"
      and e: "map toLowerAscii ext \<in> set IMAGE_EXTENSIONS" by blast
  have "toLowerAscii CHR ''.'' = CHR ''.''" by (simp add: toLowerAscii_def)
  with u have "map toLowerAscii url = map toLowerAscii stem @ CHR ''.'' # map toLowerAscii ext"
    by simp
  then have "endsWith (map toLowerAscii url) (CHR ''.'' # map toLowerAscii ext)"
    unfolding endsWith_iff by blast
  with e show "hasImageExtension url"
    unfolding hasImageExtension_def list_ex_iff by blast
qed

lemma is_numeric_iff: "is_numeric s \<longleftrightarrow> s \<noteq> [] \<and> set s \<subseteq> set ''0123456789''"
  unfolding is_numeric_def list_all_iff is_digit_def by blast

section \<open>The paywall test\<close>







section \<open>Link expansion\<close>

text \<open>
  C8. When the request fails (network error, timeout or abort) \<open>expandTcoLink\<close> returns
  the URL it was given; when it succeeds it returns the final URL of the response
  (the given URL if the response carries no URL). One request is made either way.
\<close>

theorem expandTcoLink_result:
  "(http_head w url = None \<longrightarrow> fst (expandTcoLink w url) = url)
   \<and> (\<forall>final. http_head w url = Some final \<and> final \<noteq> [] \<longrightarrow> fst (expandTcoLink w url) = final)
   \<and> (http_head w url = Some [] \<longrightarrow> fst (expandTcoLink w url) = url)
   \<and> snd (expandTcoLink w url) = [HttpHead url]"
  by (auto simp: expandTcoLink_def split: option.splits)

theorem expandTcoLink_result_witness:
  "fst (expandTcoLink offline ''https://t.co/abc'') = ''https://t.co/abc''
   \<and> fst (expandTcoLink (redirecting ''https://example.com/'') ''https://t.co/abc'') =
       ''https://example.com/''"
  using expandTcoLink_result[of offline "''https://t.co/abc''"]
    expandTcoLink_result[of "redirecting ''https://example.com/''" "''https://t.co/abc''"]
  by (simp add: offline_def redirecting_def)

section \<open>X articles\<close>

lemma processLink_xarticle:
  "detectLinkType (fst (expandTcoLink w lnk)) = XArticle \<Longrightarrow>
   processLink w b lnk =
     (\<lparr>l_original = lnk, l_expanded = fst (expandTcoLink w lnk), l_type = XArticle,
       l_content = fst (fetchXArticleContent w (b_id b))\<rparr>,
      snd (expandTcoLink w lnk) @ snd (fetchXArticleContent w (b_id b)))"
  by (simp add: processLink_def Let_def case_prod_beta)

lemma expandTcoLink_calls: "snd (expandTcoLink w url) = [HttpHead url]"
  by (simp add: expandTcoLink_def split: option.splits)


lemma fetchXArticleContent_calls:
  "snd (fetchXArticleContent w ident) = (if is_numeric ident then [BirdRead ident] else [])"
  by (simp add: fetchXArticleContent_def split: option.splits)

lemma fetchXArticleContent_invalid:
  "\<not> is_numeric ident \<Longrightarrow> fetchXArticleContent w ident = (None, [])"
  by (simp add: fetchXArticleContent_def)

text \<open>
  C5. For a link classified as an X article the read service is called with the
  identifier of the bookmark that contains the link, and with nothing else: never with
  the article id found in the URL. An identifier that is not a non-empty string of
  decimal digits never reaches the read service, and the content is null.
\<close>

theorem xarticle_uses_bookmark_id:
  "(detectLinkType (fst (expandTcoLink w lnk)) = XArticle \<longrightarrow>
      snd (processLink w b lnk) =
        HttpHead lnk # (if is_numeric (b_id b) then [BirdRead (b_id b)] else [])
      \<and> (\<forall>articleId. extractXArticleId (fst (expandTcoLink w lnk)) = Some articleId
             \<and> articleId \<noteq> b_id b \<longrightarrow> BirdRead articleId \<notin> set (snd (processLink w b lnk))))
   \<and> (is_numeric ident \<longleftrightarrow> ident \<noteq> [] \<and> set ident \<subseteq> set ''0123456789'')
   \<and> (\<not> is_numeric ident \<longrightarrow> fetchXArticleContent w ident = (None, []))"
  by (simp add: processLink_xarticle expandTcoLink_calls fetchXArticleContent_calls
        fetchXArticleContent_invalid is_numeric_iff)

theorem xarticle_uses_bookmark_id_witness:
  "snd (processLink (redirecting ''https://x.com/i/article/777'') (sampleTweet ''123'' None)
          ''https://t.co/abc'') =
     [HttpHead ''https://t.co/abc'', BirdRead ''123'']
   \<and> BirdRead ''777'' \<notin> set (snd (processLink (redirecting ''https://x.com/i/article/777'')
          (sampleTweet ''123'' None) ''https://t.co/abc''))
   \<and> fetchXArticleContent (redirecting ''https://x.com/i/article/777'') ''12; rm -rf /'' =
       (None, [])"
proof -
  let ?w = "redirecting ''https://x.com/i/article/777''"
  have e: "fst (expandTcoLink ?w ''https://t.co/abc'') = ''https://x.com/i/article/777''"
    by (simp add: expandTcoLink_def offline_def redirecting_def)
  have t: "detectLinkType ''https://x.com/i/article/777'' = XArticle"
    by (simp add: detectLinkType_def)
  have a: "extractXArticleId ''https://x.com/i/article/777'' = Some ''777''"
    by (simp add: extractXArticleId_def match_article_id_def is_digit_def)
  have n: "is_numeric ''123''" "\<not> is_numeric ''12; rm -rf /''"
    by (simp_all add: is_numeric_def is_digit_def)
  have i: "b_id (sampleTweet ''123'' None) = ''123''"
    by (simp add: sampleTweet_def)
  show ?thesis
    using xarticle_uses_bookmark_id[of ?w "''https://t.co/abc''" "sampleTweet ''123'' None"
        "''12; rm -rf /''"] e t a n i
    by simp
qed

section \<open>Classification\<close>

text \<open>
  C2, as amended. Every test of the classifier is a substring test over the whole URL, and
  the first rule that matches decides: a URL containing \<^verbatim>\<open>github.com\<close> is
  \<^verbatim>\<open>'github'\<close>; otherwise one containing \<^verbatim>\<open>youtube.com\<close> or \<^verbatim>\<open>youtu.be\<close> is
  \<^verbatim>\<open>'video'\<close>; otherwise one containing \<^verbatim>\<open>x.com\<close> or \<^verbatim>\<open>twitter.com\<close> is
  \<^verbatim>\<open>'x-article'\<close> if it contains \<^verbatim>\<open>/i/article/\<close>, else \<^verbatim>\<open>'media'\<close> if it contains
  \<^verbatim>\<open>/photo/\<close> or \<^verbatim>\<open>/video/\<close>, else \<^verbatim>\<open>'tweet'\<close>; otherwise one that ends in a dot
  and an image extension, in any case of letters, is \<^verbatim>\<open>'image'\<close>; anything else is
  \<^verbatim>\<open>'article'\<close>. So a URL that contains a social domain and \<^verbatim>\<open>/i/article/\<close>, and
  none of the code-host and video strings, is an X article whatever else it contains.
\<close>

theorem detectLinkType_rules:
  "(isCodeHost url \<longrightarrow> link_type_name (detectLinkType url) = ''github'')
   \<and> (\<not> isCodeHost url \<and> isVideoHost url \<longrightarrow> link_type_name (detectLinkType url) = ''video'')
   \<and> (\<not> isCodeHost url \<and> \<not> isVideoHost url \<and> isSocialHost url
        \<and> str_includes url ''/i/article/'' \<longrightarrow>
        link_type_name (detectLinkType url) = ''x-article'')
   \<and> (\<not> isCodeHost url \<and> \<not> isVideoHost url \<and> isSocialHost url
        \<and> \<not> str_includes url ''/i/article/''
        \<and> (str_includes url ''/photo/'' \<or> str_includes url ''/video/'') \<longrightarrow>
        link_type_name (detectLinkType url) = ''media'')
   \<and> (\<not> isCodeHost url \<and> \<not> isVideoHost url \<and> isSocialHost url
        \<and> \<not> str_includes url ''/i/article/''
        \<and> \<not> str_includes url ''/photo/'' \<and> \<not> str_includes url ''/video/'' \<longrightarrow>
        link_type_name (detectLinkType url) = ''tweet'')
   \<and> (\<not> isCodeHost url \<and> \<not> isVideoHost url \<and> \<not> isSocialHost url
        \<and> hasImageExtension url \<longrightarrow>
        link_type_name (detectLinkType url) = ''image'')
   \<and> (\<not> isCodeHost url \<and> \<not> isVideoHost url \<and> \<not> isSocialHost url
        \<and> \<not> hasImageExtension url \<longrightarrow>
        link_type_name (detectLinkType url) = ''article'')
   \<and> (hasImageExtension url \<longleftrightarrow>
        (\<exists>stem ext. url = stem @ CHR ''.'' # ext
           \<and> map toLowerAscii ext \<in> set IMAGE_EXTENSIONS))
   \<and> (\<forall>d. str_includes url d \<longleftrightarrow> (\<exists>p q. url = p @ d @ q))"
proof -
  have "\<forall>d. str_includes url d \<longleftrightarrow> (\<exists>p q. url = p @ d @ q)"
    by (simp add: str_includes_iff)
  moreover note hasImageExtension_iff[of url]
  ultimately show ?thesis
    unfolding detectLinkType_def by simp
qed

theorem detectLinkType_rules_witness:
  "link_type_name (detectLinkType ''https://x.com/user/status/123/i/article/9'') = ''x-article''
   \<and> link_type_name (detectLinkType ''https://x.com/user/status/123/photo/1'') = ''media''
   \<and> link_type_name (detectLinkType ''https://example.com/image.JPG'') = ''image''"
proof -
  have i: "hasImageExtension ''https://example.com/image.JPG''"
    by (simp add: hasImageExtension_def IMAGE_EXTENSIONS_def endsWith_def toLowerAscii_def)
  show ?thesis
    using detectLinkType_rules[of "''https://x.com/user/status/123/i/article/9''"]
      detectLinkType_rules[of "''https://x.com/user/status/123/photo/1''"]
      detectLinkType_rules[of "''https://example.com/image.JPG''"] i
    by simp
qed

text \<open>
  A URL on the social domain with \<^verbatim>\<open>/i/article/\<close> in its path, which mentions the code
  host in its query, is classified as a code-host link.
\<close>

theorem detectLinkType_rules_counterexample:
  "isSocialHost ''https://x.com/i/article/1?ref=github.com''
   \<and> str_includes ''https://x.com/i/article/1?ref=github.com'' ''/i/article/''
   \<and> link_type_name (detectLinkType ''https://x.com/i/article/1?ref=github.com'') = ''github''"
  by (simp add: detectLinkType_def)

section \<open>Selecting the bookmarks to process\<close>

lemma pendingIds_image: "pendingIds fs = p_id ` set (pendingBookmarks fs)"
  by (simp add: pendingIds_def)

text \<open>
  C1, as amended. The policy is \<^emph>\<open>allow-list, then force mode, then standard exclusion\<close>:
  when a list of identifiers is given, exactly the fetched items whose identifier is in
  the list are processed, force mode or not; otherwise in force mode every fetched item
  is processed; otherwise an item is processed iff its identifier is neither in the
  archive index nor in the pending queue.
\<close>

theorem toProcess_policy:
  "(\<forall>ids. o_specificIds opts = Some ids \<longrightarrow>
      toProcess opts (getExistingBookmarkIds fs) (pendingIds fs) tweets =
        filter (\<lambda>b. b_id b \<in> set ids) tweets)
   \<and> (o_specificIds opts = None \<and> o_force opts \<longrightarrow>
        toProcess opts (getExistingBookmarkIds fs) (pendingIds fs) tweets = tweets)
   \<and> (o_specificIds opts = None \<and> \<not> o_force opts \<longrightarrow>
        toProcess opts (getExistingBookmarkIds fs) (pendingIds fs) tweets =
          filter (\<lambda>b. b_id b \<notin> getExistingBookmarkIds fs
                    \<and> b_id b \<notin> p_id ` set (pendingBookmarks fs)) tweets)"
  by (simp add: toProcess_def pendingIds_image)

theorem toProcess_policy_witness:
  "toProcess forcedSubset (getExistingBookmarkIds noFiles) (pendingIds noFiles)
     [sampleTweet ''1'' None, sampleTweet ''2'' None] = [sampleTweet ''1'' None]
   \<and> toProcess (defaultOptions\<lparr>o_force := True\<rparr>) (getExistingBookmarkIds noFiles) (pendingIds noFiles)
     [sampleTweet ''1'' None, sampleTweet ''2'' None] = [sampleTweet ''1'' None, sampleTweet ''2'' None]
   \<and> toProcess defaultOptions
        (getExistingBookmarkIds (noFiles\<lparr>archiveFile := Some ''[Tweet](https://x.com/alice/status/555)''\<rparr>))
        (pendingIds (noFiles\<lparr>archiveFile := Some ''[Tweet](https://x.com/alice/status/555)''\<rparr>))
        [sampleTweet ''555'' None, sampleTweet ''2'' None] = [sampleTweet ''2'' None]"
proof -
  let ?fs = "noFiles\<lparr>archiveFile := Some ''[Tweet](https://x.com/alice/status/555)''\<rparr>"
  have a: "getExistingBookmarkIds ?fs = {''555''}"
    by (simp add: getExistingBookmarkIds_def noFiles_def match_archive_status_def
          is_word_def is_digit_def)
  have p: "pendingBookmarks ?fs = []"
    by (simp add: pendingBookmarks_def noFiles_def)
  have i: "b_id (sampleTweet ''555'' None) = ''555''" "b_id (sampleTweet ''2'' None) = ''2''"
     "b_id (sampleTweet ''1'' None) = ''1''"
    by (simp_all add: sampleTweet_def)
  show ?thesis
    using toProcess_policy[of forcedSubset noFiles "[sampleTweet ''1'' None, sampleTweet ''2'' None]"]
      toProcess_policy[of "defaultOptions\<lparr>o_force := True\<rparr>" noFiles "[sampleTweet ''1'' None, sampleTweet ''2'' None]"]
      toProcess_policy[of defaultOptions ?fs "[sampleTweet ''555'' None, sampleTweet ''2'' None]"]
      a p i
    by (simp add: forcedSubset_def defaultOptions_def)
qed

text \<open>
  With force mode and an allow-list together, a fetched item outside the list is not
  processed.
\<close>

theorem toProcess_policy_counterexample:
  "o_force forcedSubset
   \<and> toProcess forcedSubset (getExistingBookmarkIds noFiles) (pendingIds noFiles)
        [sampleTweet ''1'' None, sampleTweet ''2'' None]
       \<noteq> [sampleTweet ''1'' None, sampleTweet ''2'' None]"
  by (simp add: toProcess_def forcedSubset_def defaultOptions_def sampleTweet_def)

section \<open>Merging into the pending queue\<close>

lemma mset_arraySort: "mset (arraySort w xs) = mset xs"
proof (cases "list_all (\<lambda>a. timestamp w a \<noteq> None) xs")
  case True
  then show ?thesis by (simp only: arraySort_def if_True mset_sort)
next
  case nan: False
  show ?thesis
  proof (cases "list_all (\<lambda>a. list_all (\<lambda>b. sortCompare w a b = 0) xs) xs")
    case True
    with nan show ?thesis by (simp only: arraySort_def if_True if_False)
  next
    case False
    have "mset (map snd (sort_key (\<lambda>(i, a). engine_order w xs i) (enumerate 0 xs))) =
        mset (map snd (enumerate 0 xs))"
      by (simp only: mset_map mset_sort)
    also have "\<dots> = mset xs" by (simp only: map_snd_enumerate)
    finally show ?thesis using nan False by (simp only: arraySort_def if_False)
  qed
qed

lemma mset_allBookmarks:
  "mset (allBookmarks w existing prepared) = mset existing + mset (newBookmarks existing prepared)"
  by (simp only: allBookmarks_def mset_arraySort mset_append)

lemma distinct_ids_allBookmarks:
  assumes "distinct (map p_id existing)" "distinct (map p_id prepared)"
  shows "distinct (map p_id (allBookmarks w existing prepared))"
proof -
  have "distinct (map p_id (existing @ newBookmarks existing prepared))"
    using assms by (auto simp: newBookmarks_def distinct_map_filter image_iff)
  moreover have "mset (map p_id (allBookmarks w existing prepared)) =
      mset (map p_id (existing @ newBookmarks existing prepared))"
    by (simp only: mset_map mset_allBookmarks mset_append)
  ultimately show ?thesis by (metis mset_eq_imp_distinct_iff)
qed

text \<open>
  C3, as amended. The merge compares new records with the existing queue only: a new
  record whose identifier is in the existing queue is not appended, and every existing
  entry is kept, so the merged queue is the existing entries and the new records with a
  fresh identifier. If no identifier occurs twice in the existing queue and none occurs
  twice in the batch, none occurs twice in the merged queue.
\<close>

theorem merge_identifier_unique:
  "(distinct (map p_id existing) \<and> distinct (map p_id prepared) \<longrightarrow>
      distinct (map p_id (allBookmarks w existing prepared)))
   \<and> mset (allBookmarks w existing prepared) =
       mset existing + filter_mset (\<lambda>b. p_id b \<notin> p_id ` set existing) (mset prepared)
   \<and> (\<forall>b \<in> set prepared. p_id b \<in> p_id ` set existing \<longrightarrow>
         b \<notin> set (newBookmarks existing prepared))"
  using distinct_ids_allBookmarks[of existing prepared w]
  by (auto simp: mset_allBookmarks newBookmarks_def)

theorem merge_identifier_unique_witness:
  "distinct (map p_id (allBookmarks offline [samplePrepared ''1'' (Some ''2026-01-15'')]
      [samplePrepared ''1'' None, samplePrepared ''2'' (Some ''2025'')]))
   \<and> samplePrepared ''1'' None \<notin> set (newBookmarks [samplePrepared ''1'' (Some ''2026-01-15'')]
      [samplePrepared ''1'' None, samplePrepared ''2'' (Some ''2025'')])"
proof -
  have d: "distinct (map p_id [samplePrepared ''1'' (Some ''2026-01-15'')])"
      "distinct (map p_id [samplePrepared ''1'' None, samplePrepared ''2'' (Some ''2025'')])"
    by (simp_all add: samplePrepared_def)
  have i: "p_id (samplePrepared ''1'' None) \<in> p_id ` set [samplePrepared ''1'' (Some ''2026-01-15'')]"
    by (simp add: samplePrepared_def)
  show ?thesis
    using merge_identifier_unique[of "[samplePrepared ''1'' (Some ''2026-01-15'')]"
        "[samplePrepared ''1'' None, samplePrepared ''2'' (Some ''2025'')]" offline] d i
    by simp
qed

text \<open>Two records of one batch with the same identifier are both appended.\<close>

theorem merge_identifier_unique_counterexample:
  "\<not> distinct (map p_id (allBookmarks offline []
        [samplePrepared ''1'' None, samplePrepared ''1'' (Some ''2026-01-01'')]))"
proof -
  have "mset (map p_id (allBookmarks offline []
        [samplePrepared ''1'' None, samplePrepared ''1'' (Some ''2026-01-01'')])) =
      mset [''1'', ''1'']"
    by (simp add: mset_allBookmarks newBookmarks_def samplePrepared_def)
  then have "distinct (map p_id (allBookmarks offline []
        [samplePrepared ''1'' None, samplePrepared ''1'' (Some ''2026-01-01'')])) =
      distinct [''1'', ''1'' :: string]"
    by (rule mset_eq_imp_distinct_iff)
  then show ?thesis by simp
qed

lemma timestamp_missing: "\<not> truthy (p_createdAt a) \<Longrightarrow> timestamp w a = Some 0"
  by (simp add: timestamp_def truthy_def split: option.splits)

lemma sort_key_all_equal:
  assumes "\<forall>a \<in> set xs. \<forall>b \<in> set xs. f a = f b"
  shows "sort_key f xs = xs"
proof (cases xs)
  case Nil
  then show ?thesis by simp
next
  case (Cons x rest)
  then have "x \<in> set xs" by simp
  with assms have k: "\<forall>a \<in> set xs. f a = f x" by blast
  have "filter (\<lambda>y. f y = f x) (sort_key f xs) = filter (\<lambda>y. f y = f x) xs"
    by (rule sort_key_stable)
  moreover have "filter (\<lambda>y. f y = f x) (sort_key f xs) = sort_key f xs"
  proof (rule filter_True)
    show "\<forall>y \<in> set (sort_key f xs). f y = f x" using k by (simp only: set_sort)
  qed
  moreover have "filter (\<lambda>y. f y = f x) xs = xs"
    using k by (rule filter_True)
  ultimately show ?thesis by metis
qed

lemma arraySort_parsed:
  assumes "\<forall>a \<in> set xs. timestamp w a \<noteq> None"
  shows "arraySort w xs = sort_key (\<lambda>a. case timestamp w a of Some t \<Rightarrow> t | None \<Rightarrow> 0) xs"
proof -
  from assms have "list_all (\<lambda>a. timestamp w a \<noteq> None) xs" by (simp only: list_all_iff)
  then show ?thesis by (simp only: arraySort_def if_True)
qed

lemma arraySort_all_equal:
  assumes "\<forall>a \<in> set xs. \<forall>b \<in> set xs. sortCompare w a b = 0"
  shows "arraySort w xs = xs"
proof (cases "\<forall>a \<in> set xs. timestamp w a \<noteq> None")
  case True
  have "\<forall>a \<in> set xs. \<forall>b \<in> set xs.
      (case timestamp w a of Some t \<Rightarrow> t | None \<Rightarrow> 0) = (case timestamp w b of Some t \<Rightarrow> t | None \<Rightarrow> 0)"
  proof (intro ballI)
    fix a b assume ab: "a \<in> set xs" "b \<in> set xs"
    from True ab obtain s where s: "timestamp w a = Some s" by fastforce
    from True ab obtain t where t: "timestamp w b = Some t" by fastforce
    from assms ab have "sortCompare w a b = 0" by blast
    with s t show "(case timestamp w a of Some t \<Rightarrow> t | None \<Rightarrow> 0) =
        (case timestamp w b of Some t \<Rightarrow> t | None \<Rightarrow> 0)"
      by (simp add: sortCompare_def compareFn_def)
  qed
  then have "sort_key (\<lambda>a. case timestamp w a of Some t \<Rightarrow> t | None \<Rightarrow> 0) xs = xs"
    by (rule sort_key_all_equal)
  with arraySort_parsed[OF True] show ?thesis by (rule trans)
next
  case False
  then have n: "\<not> list_all (\<lambda>a. timestamp w a \<noteq> None) xs" by (simp add: list_all_iff)
  from assms have "list_all (\<lambda>a. list_all (\<lambda>b. sortCompare w a b = 0) xs) xs"
    by (simp only: list_all_iff)
  with n show ?thesis by (simp only: arraySort_def if_True if_False)
qed

lemma timestamp_parsed:
  "p_createdAt a = Some s \<Longrightarrow> s \<noteq> [] \<Longrightarrow> timestamp w a = parse_date w s"
  by (simp add: timestamp_def)

lemma allBookmarks_parsed:
  assumes p: "\<forall>a \<in> set (existing @ newBookmarks existing prepared). timestamp w a \<noteq> None"
  defines "K \<equiv> \<lambda>a. case timestamp w a of Some t \<Rightarrow> t | None \<Rightarrow> (0::int)"
  defines "m \<equiv> allBookmarks w existing prepared"
  shows "sorted (map K m)"
    and "\<forall>a \<in> set m. timestamp w a = Some (K a)"
    and "\<forall>k. filter (\<lambda>a. timestamp w a = Some k) m =
           filter (\<lambda>a. timestamp w a = Some k) (existing @ newBookmarks existing prepared)"
proof -
  let ?xs = "existing @ newBookmarks existing prepared"
  have m: "m = sort_key K ?xs"
    unfolding m_def K_def allBookmarks_def by (rule arraySort_parsed[OF p])
  show "sorted (map K m)" unfolding m by (rule sorted_sort_key)
  have sm: "set m = set ?xs" unfolding m by (rule set_sort)
  have v: "timestamp w a = Some (K a)" if "a \<in> set ?xs" for a
  proof -
    from p that obtain t where "timestamp w a = Some t" by fastforce
    then show ?thesis by (simp add: K_def)
  qed
  then show "\<forall>a \<in> set m. timestamp w a = Some (K a)" using sm by blast
  show "\<forall>k. filter (\<lambda>a. timestamp w a = Some k) m = filter (\<lambda>a. timestamp w a = Some k) ?xs"
  proof
    fix k
    have "filter (\<lambda>a. timestamp w a = Some k) m = filter (\<lambda>a. K a = k) m"
      by (rule filter_cong[OF refl]) (use v sm in auto)
    also have "\<dots> = filter (\<lambda>a. K a = k) ?xs" unfolding m by (rule sort_key_stable)
    also have "\<dots> = filter (\<lambda>a. timestamp w a = Some k) ?xs"
      by (rule filter_cong[OF refl]) (use v in auto)
    finally show "filter (\<lambda>a. timestamp w a = Some k) m =
        filter (\<lambda>a. timestamp w a = Some k) ?xs" .
  qed
qed

lemma allBookmarks_parsed_order:
  assumes p: "\<forall>a \<in> set (existing @ newBookmarks existing prepared). timestamp w a \<noteq> None"
    and ij: "i \<le> j" "j < length (allBookmarks w existing prepared)"
  shows "\<exists>s t. timestamp w (allBookmarks w existing prepared ! i) = Some s
           \<and> timestamp w (allBookmarks w existing prepared ! j) = Some t \<and> s \<le> t"
proof -
  let ?m = "allBookmarks w existing prepared"
  let ?K = "\<lambda>a. case timestamp w a of Some t \<Rightarrow> t | None \<Rightarrow> (0::int)"
  from ij have i: "i < length ?m" by simp
  have "map ?K ?m ! i \<le> map ?K ?m ! j"
    using allBookmarks_parsed(1)[OF p] ij by (simp add: sorted_iff_nth_mono del: nth_map)
  then have le: "?K (?m ! i) \<le> ?K (?m ! j)" using i ij by simp
  have "timestamp w (?m ! i) = Some (?K (?m ! i))"
    using allBookmarks_parsed(2)[OF p] i nth_mem by blast
  moreover have "timestamp w (?m ! j) = Some (?K (?m ! j))"
    using allBookmarks_parsed(2)[OF p] ij nth_mem by blast
  ultimately show ?thesis using le by blast
qed

text \<open>
  C4, as amended. When every creation timestamp of the queue and of the new records parses
  as a date, the merged queue is sorted by creation timestamp, ascending: each entry's
  timestamp is at most that of the next one. A record without a creation timestamp has
  timestamp 0: whatever comes before it is dated at or before the epoch, and whatever
  comes after it is dated at or after the epoch. Records with equal timestamps keep the
  order they had in the queue followed by the new records; in particular the queue stays
  as it is when every comparison gives zero.
\<close>

theorem merged_queue_sorted:
  "((\<forall>a \<in> set (existing @ newBookmarks existing prepared). timestamp w a \<noteq> None) \<longrightarrow>
      (\<forall>i. Suc i < length (allBookmarks w existing prepared) \<longrightarrow>
         (\<exists>s t. timestamp w (allBookmarks w existing prepared ! i) = Some s
            \<and> timestamp w (allBookmarks w existing prepared ! Suc i) = Some t \<and> s \<le> t))
      \<and> (\<forall>i j. i < j \<and> j < length (allBookmarks w existing prepared)
            \<and> \<not> truthy (p_createdAt (allBookmarks w existing prepared ! j)) \<longrightarrow>
            (\<exists>s. timestamp w (allBookmarks w existing prepared ! i) = Some s \<and> s \<le> 0))
      \<and> (\<forall>i j. i < j \<and> j < length (allBookmarks w existing prepared)
            \<and> \<not> truthy (p_createdAt (allBookmarks w existing prepared ! i)) \<longrightarrow>
            (\<exists>t. timestamp w (allBookmarks w existing prepared ! j) = Some t \<and> 0 \<le> t))
      \<and> (\<forall>k. filter (\<lambda>a. timestamp w a = Some k) (allBookmarks w existing prepared) =
               filter (\<lambda>a. timestamp w a = Some k) (existing @ newBookmarks existing prepared)))
   \<and> (\<forall>a. \<not> truthy (p_createdAt a) \<longrightarrow> timestamp w a = Some 0)
   \<and> (\<forall>a s. p_createdAt a = Some s \<and> s \<noteq> [] \<longrightarrow> timestamp w a = parse_date w s)
   \<and> ((\<forall>a \<in> set (existing @ newBookmarks existing prepared).
          \<forall>b \<in> set (existing @ newBookmarks existing prepared). sortCompare w a b = 0) \<longrightarrow>
        allBookmarks w existing prepared = existing @ newBookmarks existing prepared)"
proof -
  let ?xs = "existing @ newBookmarks existing prepared"
  let ?m = "allBookmarks w existing prepared"
  have A: "\<forall>i. Suc i < length ?m \<longrightarrow>
         (\<exists>s t. timestamp w (?m ! i) = Some s \<and> timestamp w (?m ! Suc i) = Some t \<and> s \<le> t)"
    if p: "\<forall>a \<in> set ?xs. timestamp w a \<noteq> None"
    using allBookmarks_parsed_order[OF p, of _ "Suc _"] by simp
  have B: "\<forall>i j. i < j \<and> j < length ?m \<and> \<not> truthy (p_createdAt (?m ! j)) \<longrightarrow>
            (\<exists>s. timestamp w (?m ! i) = Some s \<and> s \<le> 0)"
    if p: "\<forall>a \<in> set ?xs. timestamp w a \<noteq> None"
  proof (intro allI impI)
    fix i j assume h: "i < j \<and> j < length ?m \<and> \<not> truthy (p_createdAt (?m ! j))"
    then obtain s t where "timestamp w (?m ! i) = Some s" "timestamp w (?m ! j) = Some t" "s \<le> t"
      using allBookmarks_parsed_order[OF p, of i j] by auto
    moreover from h have "timestamp w (?m ! j) = Some 0" by (simp add: timestamp_missing)
    ultimately show "\<exists>s. timestamp w (?m ! i) = Some s \<and> s \<le> 0" by simp
  qed
  have C: "\<forall>i j. i < j \<and> j < length ?m \<and> \<not> truthy (p_createdAt (?m ! i)) \<longrightarrow>
            (\<exists>t. timestamp w (?m ! j) = Some t \<and> 0 \<le> t)"
    if p: "\<forall>a \<in> set ?xs. timestamp w a \<noteq> None"
  proof (intro allI impI)
    fix i j assume h: "i < j \<and> j < length ?m \<and> \<not> truthy (p_createdAt (?m ! i))"
    then obtain s t where "timestamp w (?m ! i) = Some s" "timestamp w (?m ! j) = Some t" "s \<le> t"
      using allBookmarks_parsed_order[OF p, of i j] by auto
    moreover from h have "timestamp w (?m ! i) = Some 0" by (simp add: timestamp_missing)
    ultimately show "\<exists>t. timestamp w (?m ! j) = Some t \<and> 0 \<le> t" by simp
  qed
  have D: "\<forall>k. filter (\<lambda>a. timestamp w a = Some k) ?m = filter (\<lambda>a. timestamp w a = Some k) ?xs"
    if p: "\<forall>a \<in> set ?xs. timestamp w a \<noteq> None"
    by (rule allBookmarks_parsed(3)[OF p])
  have E: "?m = ?xs" if "\<forall>a \<in> set ?xs. \<forall>b \<in> set ?xs. sortCompare w a b = 0"
    unfolding allBookmarks_def using that by (rule arraySort_all_equal)
  from A B C D E timestamp_missing[of _ w] timestamp_parsed[of _ _ w]
  show ?thesis by blast
qed

theorem merged_queue_sorted_witness:
  "allBookmarks offline [samplePrepared ''1'' (Some ''2026-01-15'')]
     [samplePrepared ''1'' (Some ''2026-01-15''), samplePrepared ''2'' (Some ''2025''),
      samplePrepared ''3'' None] =
     [samplePrepared ''3'' None, samplePrepared ''2'' (Some ''2025''),
      samplePrepared ''1'' (Some ''2026-01-15'')]
   \<and> (\<exists>s t. timestamp offline (samplePrepared ''3'' None) = Some s
         \<and> timestamp offline (samplePrepared ''2'' (Some ''2025'')) = Some t \<and> s \<le> t)
   \<and> (\<exists>s t. timestamp offline (samplePrepared ''2'' (Some ''2025'')) = Some s
         \<and> timestamp offline (samplePrepared ''1'' (Some ''2026-01-15'')) = Some t \<and> s \<le> t)"
proof -
  let ?e = "[samplePrepared ''1'' (Some ''2026-01-15'')]"
  let ?p = "[samplePrepared ''1'' (Some ''2026-01-15''), samplePrepared ''2'' (Some ''2025''),
      samplePrepared ''3'' None]"
  have m: "allBookmarks offline ?e ?p =
     [samplePrepared ''3'' None, samplePrepared ''2'' (Some ''2025''),
      samplePrepared ''1'' (Some ''2026-01-15'')]"
    by (simp add: allBookmarks_def arraySort_def newBookmarks_def samplePrepared_def timestamp_def
        offline_def sampleDates_def)
  have p: "\<forall>a \<in> set (?e @ newBookmarks ?e ?p). timestamp offline a \<noteq> None"
    by (simp add: newBookmarks_def samplePrepared_def timestamp_def offline_def sampleDates_def)
  from merged_queue_sorted[of ?e ?p offline] p
  have "\<forall>i. Suc i < length (allBookmarks offline ?e ?p) \<longrightarrow>
         (\<exists>s t. timestamp offline (allBookmarks offline ?e ?p ! i) = Some s
            \<and> timestamp offline (allBookmarks offline ?e ?p ! Suc i) = Some t \<and> s \<le> t)"
    by blast
  then have "\<forall>i. Suc i < 3 \<longrightarrow>
         (\<exists>s t. timestamp offline ([samplePrepared ''3'' None, samplePrepared ''2'' (Some ''2025''),
      samplePrepared ''1'' (Some ''2026-01-15'')] ! i) = Some s
            \<and> timestamp offline ([samplePrepared ''3'' None, samplePrepared ''2'' (Some ''2025''),
      samplePrepared ''1'' (Some ''2026-01-15'')] ! Suc i) = Some t \<and> s \<le> t)"
    by (simp only: m list.size length_Cons) simp
  from this[rule_format, of 0] this[rule_format, of 1] m
  show ?thesis by simp
qed

text \<open>
  A creation timestamp that does not parse makes the comparator return NaN, which the sort
  reads as zero. On the array of a record of 2 January, a record whose date is not a
  date, a record of 1 January and an undated record, V8 finds the first three to be an
  ascending run and inserts the undated record, by binary search, behind the second:
  the record of 2 January stays first, before the undated record and before the record
  of 1 January. And an undated record comes after a record dated before the epoch.
\<close>

theorem merged_queue_sorted_counterexample:
  "allBookmarks insertingEngine []
     [samplePrepared ''1'' (Some ''2026-01-02''), samplePrepared ''2'' (Some ''garbage''),
      samplePrepared ''3'' (Some ''2026-01-01''), samplePrepared ''4'' None] =
     [samplePrepared ''1'' (Some ''2026-01-02''), samplePrepared ''2'' (Some ''garbage''),
      samplePrepared ''4'' None, samplePrepared ''3'' (Some ''2026-01-01'')]
   \<and> timestamp insertingEngine (samplePrepared ''1'' (Some ''2026-01-02'')) = Some 1767312000000
   \<and> timestamp insertingEngine (samplePrepared ''4'' None) = Some 0
   \<and> allBookmarks offline [] [samplePrepared ''4'' None, samplePrepared ''5'' (Some ''1969-12-31'')] =
       [samplePrepared ''5'' (Some ''1969-12-31''), samplePrepared ''4'' None]"
  by (simp add: allBookmarks_def arraySort_def newBookmarks_def samplePrepared_def timestamp_def
      sortCompare_def compareFn_def insertingEngine_def offline_def sampleDates_def)

section \<open>Code-host links\<close>

lemma fetchGitHubContent_api_failure:
  "extractGitHubInfo url = Some (owner, repo) \<Longrightarrow> github_repo w owner repo = None \<Longrightarrow>
   fetchGitHubContent w url = (Inl GitHubApiError, [GitHubRepo owner repo])"
  by (simp add: fetchGitHubContent_def)

lemma fetchContent_github_failure:
  "fetchGitHubContent w url = (Inl e, c) \<Longrightarrow>
   fetchContent w url Github =
     (if isPaywalled url then (Inr (PaywalledResult url), c)
      else (fst (fetchArticleContent w url), c @ snd (fetchArticleContent w url)))"
  by (simp add: fetchContent_def case_prod_beta)

lemma processLink_github_content:
  "detectLinkType (fst (expandTcoLink w lnk)) = Github \<Longrightarrow>
   l_content (fst (processLink w b lnk)) =
     Some (case fst (fetchContent w (fst (expandTcoLink w lnk)) Github) of
             Inr r \<Rightarrow> contentOfFetchResult r
           | Inl e \<Rightarrow> ErrorContent e)"
  by (simp add: processLink_def Let_def case_prod_beta split: sum.splits prod.splits)

text \<open>
  C6, as amended. When the GitHub API call fails, \<open>fetchGitHubContent\<close> throws and
  \<open>fetchContent\<close> catches: it goes on to the generic chain, which is the paywall marker
  for a URL with a paywalled domain, and otherwise the summarize CLI followed by the
  direct fetch. The link's content is what that chain returns, or an error record when
  the chain fails too; the pipeline continues in both cases.
\<close>

theorem github_failure_falls_back:
  "(\<forall>owner repo. extractGitHubInfo url = Some (owner, repo) \<and> github_repo w owner repo = None \<longrightarrow>
       fetchGitHubContent w url = (Inl GitHubApiError, [GitHubRepo owner repo]))
   \<and> (\<forall>e c. fetchGitHubContent w url = (Inl e, c) \<longrightarrow>
        fetchContent w url Github =
          (if isPaywalled url then (Inr (PaywalledResult url), c)
           else (fst (fetchArticleContent w url), c @ snd (fetchArticleContent w url))))
   \<and> (detectLinkType (fst (expandTcoLink w lnk)) = Github \<longrightarrow>
        l_content (fst (processLink w b lnk)) =
          Some (case fst (fetchContent w (fst (expandTcoLink w lnk)) Github) of
                  Inr r \<Rightarrow> contentOfFetchResult r
                | Inl e \<Rightarrow> ErrorContent e))"
  using fetchGitHubContent_api_failure[of url _ _ w] fetchContent_github_failure[of w url]
    processLink_github_content[of w lnk b]
  by blast

theorem github_failure_falls_back_witness:
  "fetchContent githubDown ''https://github.com/a/b'' Github =
     (fst (fetchArticleContent githubDown ''https://github.com/a/b''),
      GitHubRepo ''a'' ''b'' # snd (fetchArticleContent githubDown ''https://github.com/a/b''))
   \<and> fetchContent offline ''https://github.com/nytimes.com/b'' Github =
       (Inr (PaywalledResult ''https://github.com/nytimes.com/b''), [GitHubRepo ''nytimes.com'' ''b''])"
proof -
  have i: "extractGitHubInfo ''https://github.com/a/b'' = Some (''a'', ''b'')"
      "extractGitHubInfo ''https://github.com/nytimes.com/b'' = Some (''nytimes.com'', ''b'')"
    by (simp_all add: extractGitHubInfo_def match_github_def endsWith_def Let_def)
  have g: "github_repo githubDown ''a'' ''b'' = None" "github_repo offline ''nytimes.com'' ''b'' = None"
    by (simp_all add: githubDown_def offline_def)
  have p: "\<not> isPaywalled ''https://github.com/a/b''" "isPaywalled ''https://github.com/nytimes.com/b''"
    by (simp_all add: isPaywalled_def PAYWALL_DOMAINS_def)
  show ?thesis
    using github_failure_falls_back[of "''https://github.com/a/b''" githubDown]
      github_failure_falls_back[of "''https://github.com/nytimes.com/b''" offline] i g p
    by simp
qed

text \<open>
  With the GitHub API down and the summarize CLI up, the summarize CLI is called for a
  GitHub link and its text is the result.
\<close>

theorem github_failure_counterexample:
  "fetchGitHubContent githubDown ''https://github.com/a/b'' =
     (Inl GitHubApiError, [GitHubRepo ''a'' ''b''])
   \<and> fetchContent githubDown ''https://github.com/a/b'' Github =
     (Inr (SummarizeResult \<lparr>s_title = Some ''Title'', s_description = None, s_text = ''body''\<rparr>),
      [GitHubRepo ''a'' ''b'', SummarizeCli ''https://github.com/a/b''])"
  by (simp add: fetchContent_def fetchGitHubContent_def extractGitHubInfo_def match_github_def
      endsWith_def githubDown_def offline_def isPaywalled_def PAYWALL_DOMAINS_def
      fetchArticleContent_def fetchArticleWithSummarize_def or_null_def truthy_def str_or_def Let_def)

section \<open>The run and its files\<close>

lemma fst_prepareAll:
  "fst (prepareAll w includeMedia bs) = map (\<lambda>b. fst (prepareBookmark w includeMedia b)) bs"
  by (induction bs) (simp_all add: case_prod_beta Let_def)

lemma p_media_prepareBookmark:
  "p_media (fst (prepareBookmark w includeMedia b)) =
     (if includeMedia then (case b_media b of Some m \<Rightarrow> m | None \<Rightarrow> []) else [])"
  by (simp add: prepareBookmark_def Let_def case_prod_beta)

lemma run_result_cases:
  assumes "fetchAndPrepareBookmarks w cfg opts fs = (Inr r, fs', c)"
  shows "(r = emptyResult \<and> fs' = fs)
       \<or> (\<exists>selected. selected \<noteq> [] \<and>
            res_bookmarks r = fst (prepareAll w (runIncludeMedia cfg opts) selected))"
  using assms
  by (auto simp: fetchAndPrepareBookmarks_def Let_def case_prod_beta
      split: sum.splits if_splits)

lemma run_source_failure:
  assumes "\<not> (cfg_folders cfg \<noteq> [] \<and> runSource cfg opts = ''bookmarks'')"
    and "fetchFromSource w (Some (runSource cfg opts)) (runCount opts) (runFetchOptions opts) =
           (Inl e, c)"
  shows "fetchAndPrepareBookmarks w cfg opts fs = (Inl e, fs, c)"
  using assms by (auto simp: fetchAndPrepareBookmarks_def Let_def)

lemma fetchBookmarks_outage:
  "\<forall>folder paging. bird_bookmarks w folder paging = None \<Longrightarrow>
   fst (fetchBookmarks w cnt fo) = Inl FetchBookmarksFailed"
  by (simp add: fetchBookmarks_def case_prod_beta)

lemma run_bookmarks_outage:
  assumes "\<forall>folder paging. bird_bookmarks w folder paging = None"
    and "cfg_folders cfg = []" and "runSource cfg opts = ''bookmarks''"
  shows "fst (fetchAndPrepareBookmarks w cfg opts fs) = Inl FetchBookmarksFailed"
  using assms fetchBookmarks_outage[OF assms(1), of "runCount opts" "runFetchOptions opts"]
  by (simp add: fetchAndPrepareBookmarks_def Let_def fetchFromSource_def case_prod_beta str_or_def)

lemma fetchBookmarks_calls:
  "snd (fetchBookmarks w cnt fo) =
     [BirdBookmarks (fst (bookmarksCmd cnt fo)) (snd (bookmarksCmd cnt fo))]"
  by (simp add: fetchBookmarks_def case_prod_beta split: option.splits)

lemma foldersLoop_calls:
  "snd (foldersLoop w cnt fo seen folders) =
     map (\<lambda>(folderId, folderTag).
            BirdBookmarks (fst (bookmarksCmd cnt (fo\<lparr>fo_folderId := Some folderId\<rparr>)))
                          (snd (bookmarksCmd cnt (fo\<lparr>fo_folderId := Some folderId\<rparr>)))) folders"
proof (induction folders arbitrary: seen)
  case Nil
  then show ?case by simp
next
  case (Cons ft rest)
  obtain f t where ft: "ft = (f, t)" by (cases ft)
  obtain r c where rc: "fetchBookmarks w cnt (fo\<lparr>fo_folderId := Some f\<rparr>) = (r, c)"
    by (cases "fetchBookmarks w cnt (fo\<lparr>fo_folderId := Some f\<rparr>)")
  then have c: "c = [BirdBookmarks (fst (bookmarksCmd cnt (fo\<lparr>fo_folderId := Some f\<rparr>)))
                          (snd (bookmarksCmd cnt (fo\<lparr>fo_folderId := Some f\<rparr>)))]"
    using fetchBookmarks_calls[of w cnt "fo\<lparr>fo_folderId := Some f\<rparr>"] by simp
  show ?case
    by (cases r) (simp_all add: ft rc c Cons.IH case_prod_beta)
qed

lemma foldersLoop_skips_failed:
  "fst (foldersLoop w cnt fo seen folders) =
   fst (foldersLoop w cnt fo seen
          (filter (\<lambda>(folderId, folderTag).
             \<not> isl (fst (fetchBookmarks w cnt (fo\<lparr>fo_folderId := Some folderId\<rparr>)))) folders))"
proof (induction folders arbitrary: seen)
  case Nil
  then show ?case by simp
next
  case (Cons ft rest)
  obtain f t where ft: "ft = (f, t)" by (cases ft)
  obtain r c where rc: "fetchBookmarks w cnt (fo\<lparr>fo_folderId := Some f\<rparr>) = (r, c)"
    by (cases "fetchBookmarks w cnt (fo\<lparr>fo_folderId := Some f\<rparr>)")
  show ?case
  proof (cases r)
    case (Inl e)
    then show ?thesis using Cons.IH[of seen] by (simp add: ft rc case_prod_beta)
  next
    case (Inr bookmarks)
    then show ?thesis
      using Cons.IH[of "snd (tagNew f t seen bookmarks)"] by (simp add: ft rc case_prod_beta)
  qed
qed

lemma run_folders_no_fetch_error:
  "cfg_folders cfg \<noteq> [] \<Longrightarrow> runSource cfg opts = ''bookmarks'' \<Longrightarrow>
   fst (fetchAndPrepareBookmarks w cfg opts fs) = Inl e \<Longrightarrow> e = TypeError"
  by (auto simp: fetchAndPrepareBookmarks_def Let_def case_prod_beta existingPending_def
      split: if_splits sum.splits pending_file.splits bookmarks_field.splits
      elim: setLastCheck.elims)

text \<open>
  The two other errors of a run. A state file that holds a primitive value makes the run
  throw after it has written the pending file; a pending file whose \<^verbatim>\<open>bookmarks\<close> are
  not an array makes it throw after the bookmarks are prepared and before it writes.
\<close>

lemma run_throws_after_pending_write:
  "fetchAndPrepareBookmarks flakyFolders twoFolders defaultOptions
     (noFiles\<lparr>stateFile := Some StatePrimitive\<rparr>) =
     (Inl TypeError,
      \<lparr>archiveFile = None,
        pendingFile = PendingDoc ''2026-11-03T12:00:00.000Z'' 1
                        (Records [(samplePrepared ''10'' None)\<lparr>p_tags := [''tools'']\<rparr>]),
        stateFile = Some StatePrimitive\<rparr>,
      [BirdBookmarks (Some ''1'') (Count 20), BirdBookmarks (Some ''2'') (Count 20)])"
  by (simp add: fetchAndPrepareBookmarks_def fetchFromFolders_def fetchBookmarks_def bookmarksCmd_def
      flakyFolders_def offline_def twoFolders_def defaultOptions_def noFiles_def
      runSource_def runCount_def runFetchOptions_def runIncludeMedia_def str_or_def truthy_def
      toProcess_def getExistingBookmarkIds_def pendingIds_def pendingBookmarks_def
      existingPending_def
      prepareBookmark_def sampleTweet_def samplePrepared_def allBookmarks_def arraySort_def
      timestamp_def newBookmarks_def
      loadState_def saveState_def match_tco_def Let_def)

lemma run_throws_before_write:
  "fetchAndPrepareBookmarks flakyFolders twoFolders defaultOptions
     (noFiles\<lparr>pendingFile := PendingDoc ''2026-11-02T12:00:00.000Z'' 0 NotAnArray\<rparr>) =
     (Inl TypeError,
      noFiles\<lparr>pendingFile := PendingDoc ''2026-11-02T12:00:00.000Z'' 0 NotAnArray\<rparr>,
      [BirdBookmarks (Some ''1'') (Count 20), BirdBookmarks (Some ''2'') (Count 20)])"
  by (simp add: fetchAndPrepareBookmarks_def fetchFromFolders_def fetchBookmarks_def bookmarksCmd_def
      flakyFolders_def offline_def twoFolders_def defaultOptions_def noFiles_def
      runSource_def runCount_def runFetchOptions_def runIncludeMedia_def str_or_def truthy_def
      toProcess_def getExistingBookmarkIds_def pendingIds_def pendingBookmarks_def
      existingPending_def
      prepareBookmark_def sampleTweet_def samplePrepared_def allBookmarks_def arraySort_def
      timestamp_def newBookmarks_def
      loadState_def saveState_def match_tco_def Let_def)

text \<open>
  C7, as amended. When no folders are configured, or the source is not the bookmarks, a
  failure of the fetch of the batch is thrown by the run, and the run leaves the pending
  file and the state file as they were; in particular so when the bird CLI fails on
  every call. With folders configured and the bookmarks as source, a folder whose fetch
  fails is skipped: every configured folder is fetched, the batch is the one the
  folders whose fetch succeeds give, and the run throws no fetch failure.
\<close>

theorem fetch_failure_no_writes:
  "(\<forall>e c. \<not> (cfg_folders cfg \<noteq> [] \<and> runSource cfg opts = ''bookmarks'')
        \<and> fetchFromSource w (Some (runSource cfg opts)) (runCount opts) (runFetchOptions opts) =
            (Inl e, c)
        \<longrightarrow> fetchAndPrepareBookmarks w cfg opts fs = (Inl e, fs, c))
   \<and> ((\<forall>folder paging. bird_bookmarks w folder paging = None) \<and> cfg_folders cfg = []
        \<and> runSource cfg opts = ''bookmarks'' \<longrightarrow>
        fst (fetchAndPrepareBookmarks w cfg opts fs) = Inl FetchBookmarksFailed)
   \<and> snd (fetchFromFolders w folders cnt fo) =
       map (\<lambda>(folderId, folderTag).
              BirdBookmarks (fst (bookmarksCmd cnt (fo\<lparr>fo_folderId := Some folderId\<rparr>)))
                            (snd (bookmarksCmd cnt (fo\<lparr>fo_folderId := Some folderId\<rparr>)))) folders
   \<and> fst (fetchFromFolders w folders cnt fo) =
       fst (fetchFromFolders w
              (filter (\<lambda>(folderId, folderTag).
                 \<not> isl (fst (fetchBookmarks w cnt (fo\<lparr>fo_folderId := Some folderId\<rparr>)))) folders)
              cnt fo)
   \<and> (cfg_folders cfg \<noteq> [] \<and> runSource cfg opts = ''bookmarks'' \<longrightarrow>
        (\<forall>e. fst (fetchAndPrepareBookmarks w cfg opts fs) = Inl e \<longrightarrow> e = TypeError))"
  using run_source_failure[of cfg opts w _ _ fs] run_bookmarks_outage[of w cfg opts fs]
    foldersLoop_calls[of w cnt fo "{}" folders] foldersLoop_skips_failed[of w cnt fo "{}" folders]
    run_folders_no_fetch_error[of cfg opts w fs]
  unfolding fetchFromFolders_def by blast

theorem fetch_failure_no_writes_witness:
  "fetchAndPrepareBookmarks offline noFolders defaultOptions noFiles =
     (Inl FetchBookmarksFailed, noFiles, [BirdBookmarks None (Count 20)])
   \<and> snd (fetchFromFolders flakyFolders [(''1'', ''reading''), (''2'', ''tools'')] 20
            (runFetchOptions defaultOptions)) =
       [BirdBookmarks (Some ''1'') (Count 20), BirdBookmarks (Some ''2'') (Count 20)]
   \<and> fst (fetchFromFolders flakyFolders [(''1'', ''reading''), (''2'', ''tools'')] 20
            (runFetchOptions defaultOptions)) =
       fst (fetchFromFolders flakyFolders [(''2'', ''tools'')] 20 (runFetchOptions defaultOptions))"
proof -
  have s: "runSource noFolders defaultOptions = ''bookmarks''"
    by (simp add: runSource_def noFolders_def defaultOptions_def str_or_def)
  have f: "cfg_folders noFolders = []" by (simp add: noFolders_def)
  have n: "runCount defaultOptions = 20" by (simp add: runCount_def defaultOptions_def)
  have x: "fetchFromSource offline (Some ''bookmarks'') 20 (runFetchOptions defaultOptions) =
      (Inl FetchBookmarksFailed, [BirdBookmarks None (Count 20)])"
    by (simp add: fetchFromSource_def fetchBookmarks_def bookmarksCmd_def runFetchOptions_def
        runCount_def truthy_def str_or_def offline_def defaultOptions_def)
  have c: "bookmarksCmd 20 ((runFetchOptions defaultOptions)\<lparr>fo_folderId := Some ''1''\<rparr>) =
        (Some ''1'', Count 20)"
      "bookmarksCmd 20 ((runFetchOptions defaultOptions)\<lparr>fo_folderId := Some ''2''\<rparr>) =
        (Some ''2'', Count 20)"
    by (simp_all add: bookmarksCmd_def runFetchOptions_def runCount_def truthy_def
        defaultOptions_def)
  have l: "isl (fst (fetchBookmarks flakyFolders 20
              ((runFetchOptions defaultOptions)\<lparr>fo_folderId := Some ''1''\<rparr>)))"
      "\<not> isl (fst (fetchBookmarks flakyFolders 20
              ((runFetchOptions defaultOptions)\<lparr>fo_folderId := Some ''2''\<rparr>)))"
    by (simp_all add: fetchBookmarks_def c flakyFolders_def offline_def)
  show ?thesis
    using fetch_failure_no_writes[of noFolders defaultOptions offline noFiles]
      fetch_failure_no_writes[of _ _ flakyFolders _ "[(''1'', ''reading''), (''2'', ''tools'')]" 20
        "runFetchOptions defaultOptions"] s f n x c l
    by simp
qed

text \<open>
  With two folders, the first of which cannot be fetched, the run does not throw; it
  writes the pending file and the state file.
\<close>

theorem fetch_failure_counterexample:
  "fst (fetchBookmarks flakyFolders 20
          \<lparr>fo_all = False, fo_maxPages = None, fo_folderId = Some ''1''\<rparr>) = Inl FetchBookmarksFailed
   \<and> fetchAndPrepareBookmarks flakyFolders twoFolders defaultOptions noFiles =
       (Inr \<lparr>res_bookmarks = [(samplePrepared ''10'' None)\<lparr>p_tags := [''tools'']\<rparr>],
             res_count = 1, res_pendingFile = True\<rparr>,
        \<lparr>archiveFile = None,
          pendingFile = PendingDoc ''2026-11-03T12:00:00.000Z'' 1
                          (Records [(samplePrepared ''10'' None)\<lparr>p_tags := [''tools'']\<rparr>]),
          stateFile = Some (StateObject \<lparr>last_processed_id = None,
                            last_check = Some ''2026-11-03T12:00:00.000Z'',
                            last_processing_run = None\<rparr>)\<rparr>,
        [BirdBookmarks (Some ''1'') (Count 20), BirdBookmarks (Some ''2'') (Count 20)])"
  by (simp add: fetchAndPrepareBookmarks_def fetchFromFolders_def fetchBookmarks_def bookmarksCmd_def
      flakyFolders_def offline_def twoFolders_def defaultOptions_def noFiles_def
      runSource_def runCount_def runFetchOptions_def runIncludeMedia_def str_or_def truthy_def
      toProcess_def getExistingBookmarkIds_def pendingIds_def pendingBookmarks_def
      existingPending_def
      prepareBookmark_def sampleTweet_def samplePrepared_def allBookmarks_def arraySort_def
      timestamp_def newBookmarks_def
      loadState_def saveState_def match_tco_def Let_def)

section \<open>Media\<close>

text \<open>
  C9. The media of a prepared record are those of the raw bookmark when media are enabled
  and empty otherwise, whatever the raw bookmark holds. Media are enabled by the option,
  or by the configuration when the option is not given, and are off by default; a run
  with media disabled returns records with empty media only.
\<close>

theorem media_only_when_enabled:
  "map p_media (fst (prepareAll w includeMedia bs)) =
     map (\<lambda>b. if includeMedia then (case b_media b of Some m \<Rightarrow> m | None \<Rightarrow> []) else []) bs
   \<and> (runIncludeMedia cfg opts \<longleftrightarrow>
        o_includeMedia opts = Some True
        \<or> (o_includeMedia opts = None \<and> cfg_includeMedia cfg = Some True))
   \<and> (\<forall>r fs' c. fetchAndPrepareBookmarks w cfg opts fs = (Inr r, fs', c)
         \<and> \<not> runIncludeMedia cfg opts \<longrightarrow> (\<forall>p \<in> set (res_bookmarks r). p_media p = []))"
proof -
  have a: "map p_media (fst (prepareAll w includeMedia bs)) =
     map (\<lambda>b. if includeMedia then (case b_media b of Some m \<Rightarrow> m | None \<Rightarrow> []) else []) bs"
    by (simp add: fst_prepareAll p_media_prepareBookmark)
  have b: "runIncludeMedia cfg opts \<longleftrightarrow>
        o_includeMedia opts = Some True
        \<or> (o_includeMedia opts = None \<and> cfg_includeMedia cfg = Some True)"
    by (auto simp: runIncludeMedia_def split: option.splits)
  have c: "\<forall>p \<in> set (res_bookmarks r). p_media p = []"
    if run: "fetchAndPrepareBookmarks w cfg opts fs = (Inr r, fs', c)"
      and off: "\<not> runIncludeMedia cfg opts" for r fs' c
    using run_result_cases[OF run] off
    by (auto simp: emptyResult_def fst_prepareAll p_media_prepareBookmark)
  from a b c show ?thesis by blast
qed

theorem media_only_when_enabled_witness:
  "map p_media (fst (prepareAll offline False [sampleTweet ''1'' None])) = [[]]
   \<and> map p_media (fst (prepareAll offline True [sampleTweet ''1'' None])) =
       [[MediaItem ''photo'' ''https://pbs.twimg.com/media/a.jpg'']]
   \<and> \<not> runIncludeMedia noFolders defaultOptions"
  using media_only_when_enabled[of offline False "[sampleTweet ''1'' None]" noFolders defaultOptions]
    media_only_when_enabled[of offline True "[sampleTweet ''1'' None]" noFolders defaultOptions]
  by (simp add: sampleTweet_def noFolders_def defaultOptions_def)

end
